theory Spec2Isabelle
  imports Complex_Main "HOL-Library.Multiset"
begin

section \<open>JavaScript numbers\<close>

text \<open>
  The program computes with JavaScript numbers. A number is modelled as a real, or as
  \<open>NaN\<close>: the finite doubles are idealised as reals (no rounding error, no overflow,
  no signed zero), and \<open>NaN\<close> is kept because the program produces it from
  \<open>undefined\<close> operands and from score strings that do not parse, and every
  later operation propagates it. The program never divides by anything but the literals
  2, 3, 4 and 30, so no infinity arises from numeric inputs.
\<close>

datatype jsnum = NaN | Num real

instantiation jsnum :: "{plus, minus, times}"
begin

fun plus_jsnum :: "jsnum \<Rightarrow> jsnum \<Rightarrow> jsnum" where
  "plus_jsnum (Num a) (Num b) = Num (a + b)"
| "plus_jsnum _ _ = NaN"

fun minus_jsnum :: "jsnum \<Rightarrow> jsnum \<Rightarrow> jsnum" where
  "minus_jsnum (Num a) (Num b) = Num (a - b)"
| "minus_jsnum _ _ = NaN"

fun times_jsnum :: "jsnum \<Rightarrow> jsnum \<Rightarrow> jsnum" where
  "times_jsnum (Num a) (Num b) = Num (a * b)"
| "times_jsnum _ _ = NaN"

instance ..

end

text \<open>Division \<open>x / c\<close>; every divisor in the program is a nonzero literal.\<close>

fun js_div :: "jsnum \<Rightarrow> jsnum \<Rightarrow> jsnum" where
  "js_div (Num a) (Num b) = Num (a / b)"
| "js_div _ _ = NaN"

text \<open>
  The relational operators convert both operands to numbers and are false as soon as
  one of them is \<open>NaN\<close>; \<open>===\<close> on numbers is false on \<open>NaN\<close> too.
\<close>

fun js_ge :: "jsnum \<Rightarrow> jsnum \<Rightarrow> bool" where
  "js_ge (Num a) (Num b) = (a \<ge> b)"
| "js_ge _ _ = False"

fun js_gt :: "jsnum \<Rightarrow> jsnum \<Rightarrow> bool" where
  "js_gt (Num a) (Num b) = (a > b)"
| "js_gt _ _ = False"

fun js_eq :: "jsnum \<Rightarrow> jsnum \<Rightarrow> bool" where
  "js_eq (Num a) (Num b) = (a = b)"
| "js_eq _ _ = False"

text \<open>
  A variable that was declared and never assigned holds \<open>undefined\<close>, as does an
  array element or a property that is not there; \<open>None\<close> stands for it. In
  arithmetic and in comparisons \<open>undefined\<close> is converted to \<open>NaN\<close>.
\<close>

fun ToNumber :: "jsnum option \<Rightarrow> jsnum" where
  "ToNumber None = NaN"
| "ToNumber (Some x) = x"

text \<open>
  \<open>Math.floor\<close>; \<open>Math.round\<close>, which rounds a half up (towards
  \<open>+\<infinity>\<close>), as \<^const>\<open>round\<close> does; and \<open>Math.pow\<close>, which the
  program applies to a non-negative base and the exponent 1.5 only.
\<close>

fun Math_floor :: "jsnum \<Rightarrow> jsnum" where
  "Math_floor (Num a) = Num (of_int \<lfloor>a\<rfloor>)"
| "Math_floor NaN = NaN"

fun Math_round :: "jsnum \<Rightarrow> jsnum" where
  "Math_round (Num a) = Num (of_int (round a))"
| "Math_round NaN = NaN"

fun Math_pow :: "jsnum \<Rightarrow> jsnum \<Rightarrow> jsnum" where
  "Math_pow (Num a) (Num b) =
     (if b = 0 then Num 1 else if 0 \<le> a \<and> 0 < b then Num (a powr b) else NaN)"
| "Math_pow NaN (Num b) = (if b = 0 then Num 1 else NaN)"
| "Math_pow _ NaN = NaN"

section \<open>The expected-margin model\<close>

text \<open>
  \<open>expectedPointDiff(rankHome, rankAway, score1, score2)\<close> of \<open>main.js\<close>. The
  rankings are integers. \<open>let margin;\<close> leaves \<open>margin\<close> undefined, and the
  branch for a rank difference above 10 compares \<open>actualPointDiff >= margin\<close>
  before any assignment to it.
\<close>

definition expectedPointDiff :: "int \<Rightarrow> int \<Rightarrow> jsnum \<Rightarrow> jsnum \<Rightarrow> jsnum" where
  "expectedPointDiff rankHome rankAway score1 score2 =
     (let actualPointDiff = (if rankHome < rankAway then score1 - score2 else score2 - score1);
          rankDiff = \<bar>rankHome - rankAway\<bar>;
          baseDiff = 4;
          maxDiff = 30;
          scalingFactor = 1.5;
          pointDiff = Num baseDiff
            + Num (maxDiff - baseDiff) * Math_pow (Num (real_of_int rankDiff / 30)) (Num scalingFactor);
          margin = None
      in if rankDiff > 10 then
           (if js_ge actualPointDiff (ToNumber margin)
            then Math_round (js_div actualPointDiff (Num 3))
            else Num 0)
         else Math_round (js_div (actualPointDiff - pointDiff) (Num 3)))"

text \<open>
  The expected-margin curve in the words of the specification:
  \<open>expected = 4 + 26 \<times> (rankGap / 30)^1.5\<close>.
\<close>

definition expected_curve :: "int \<Rightarrow> real" where
  "expected_curve rankGap = 4 + 26 * (real_of_int rankGap / 30) powr 1.5"

section \<open>Input data\<close>

text \<open>
  The only failure of the program is the \<open>TypeError\<close> JavaScript raises when a
  property of \<open>undefined\<close> is read or \<open>reduce\<close> is applied to an empty array
  without an initial value; nothing catches it, so it ends the run.
\<close>

datatype error = TypeError

text \<open>
  A team of \<open>groups.json\<close> and an exhibition match of \<open>exhibitions.json\<close>.
  Both files are objects; an object is modelled as the list of its entries in enumeration
  order, with distinct keys.
\<close>

record team =
  Team :: string
  ISOCode :: string
  FIBARanking :: int

record exhibition =
  Opponent :: string
  Result :: string

type_synonym groups = "(string \<times> team list) list"
type_synonym exhibitions = "(string \<times> exhibition list) list"

text \<open>\<open>{ ...groupTeam, form: 0 }\<close>: a team with its form.\<close>

record team_form = team +
  form :: jsnum

text \<open>
  \<open>array.find(p)\<close> returns the first element that satisfies \<open>p\<close>, or
  \<open>undefined\<close>. The element is an object that the caller then mutates, so the model
  returns its position. \<open>array[i]\<close> is \<open>undefined\<close> out of range.
\<close>

fun find_index :: "('a \<Rightarrow> bool) \<Rightarrow> 'a list \<Rightarrow> nat option" where
  "find_index P [] = None"
| "find_index P (x # xs) = (if P x then Some 0 else map_option Suc (find_index P xs))"

definition nth_opt :: "'a list \<Rightarrow> nat \<Rightarrow> 'a option" where
  "nth_opt xs i = (if i < length xs then Some (xs ! i) else None)"

text \<open>
  \<open>Result.split('-')\<close> cuts the string at every \<open>-\<close>; the result is never empty
  (\<open>''.split('-')\<close> is \<open>['']\<close>).
\<close>

fun split_dash :: "string \<Rightarrow> string list" where
  "split_dash [] = [[]]"
| "split_dash (c # cs) =
     (if c = CHR ''-'' then [] # split_dash cs
      else (case split_dash cs of [] \<Rightarrow> [[c]] | p # ps \<Rightarrow> (c # p) # ps))"

text \<open>
  \<open>Number(s)\<close>: a string of decimal digits is its value and the empty string is 0.
  Every other string is taken as \<open>NaN\<close>. That is what JavaScript gives for a string
  with a character that no numeric literal can hold: one that is not a letter, a digit, a
  sign, a dot, white space or a byte outside ASCII (see \<open>literal_char\<close> below).
  JavaScript also reads numerals with surrounding white space, a sign, a fraction, an
  exponent, a radix prefix, and \<open>Infinity\<close>; they are not part of the
  \<open>"<int>-<int>"\<close> format and the model does not cover them, so the statements
  below that depend on the value of \<open>Number\<close> are about digit strings, and about
  strings with a character that is not a \<open>literal_char\<close>.
\<close>

definition is_digit :: "char \<Rightarrow> bool" where
  "is_digit c = (48 \<le> (of_char c :: nat) \<and> (of_char c :: nat) \<le> 57)"

definition decimal :: "string \<Rightarrow> nat" where
  "decimal s = foldl (\<lambda>n c. 10 * n + (of_char c - 48)) 0 s"

definition Number_js :: "string \<Rightarrow> jsnum" where
  "Number_js s = (if list_all is_digit s then Num (real (decimal s)) else NaN)"

section \<open>Seeding the form table\<close>

text \<open>
  \<open>getInitialForms(exhibitions)\<close>. \<open>teamRankings\<close> is the list of all teams of all
  groups with form 0. \<open>homeTeam\<close> and \<open>awayTeam\<close> are elements of that list (possibly
  the same one) and \<open>form += pointDiff\<close> mutates them in place: the model updates the
  list at their positions. Reading \<open>FIBARanking\<close> of a team that \<open>find\<close> did not
  find raises the \<open>TypeError\<close>. The destructuring \<open>[score1, score2] = ...\<close> gives
  \<open>undefined\<close> for a missing element, which the subtraction in
  \<open>expectedPointDiff\<close> converts to \<open>NaN\<close>.
\<close>

definition addForm :: "nat \<Rightarrow> jsnum \<Rightarrow> team_form list \<Rightarrow> team_form list" where
  "addForm i pointDiff teamRankings =
     teamRankings[i := (teamRankings ! i)\<lparr>form := form (teamRankings ! i) + pointDiff\<rparr>]"

fun seedMatches :: "nat \<Rightarrow> int \<Rightarrow> exhibition list \<Rightarrow> team_form list \<Rightarrow> error + team_form list" where
  "seedMatches home rankHome [] teamRankings = Inr teamRankings"
| "seedMatches home rankHome (match # matches) teamRankings =
     (case find_index (\<lambda>teamRanking. ISOCode teamRanking = Opponent match) teamRankings of
        None \<Rightarrow> Inl TypeError
      | Some away \<Rightarrow>
          (let rankAway = FIBARanking (teamRankings ! away);
               scores = map Number_js (split_dash (Result match));
               score1 = ToNumber (nth_opt scores 0);
               score2 = ToNumber (nth_opt scores 1);
               pointDiff = expectedPointDiff rankHome rankAway score1 score2
           in seedMatches home rankHome matches
                (if rankHome < rankAway then addForm home pointDiff teamRankings
                 else addForm away pointDiff teamRankings)))"

fun seedTeams :: "exhibitions \<Rightarrow> team_form list \<Rightarrow> error + team_form list" where
  "seedTeams [] teamRankings = Inr teamRankings"
| "seedTeams ((code, matches) # rest) teamRankings =
     (case find_index (\<lambda>teamRanking. ISOCode teamRanking = code) teamRankings of
        None \<Rightarrow> Inl TypeError
      | Some home \<Rightarrow>
          (case seedMatches home (FIBARanking (teamRankings ! home)) matches teamRankings of
             Inl e \<Rightarrow> Inl e
           | Inr teamRankings' \<Rightarrow> seedTeams rest teamRankings'))"

definition withForm :: "team \<Rightarrow> team_form" where
  "withForm groupTeam =
     \<lparr>Team = Team groupTeam, ISOCode = ISOCode groupTeam,
      FIBARanking = FIBARanking groupTeam, form = Num 0\<rparr>"

definition getInitialForms :: "groups \<Rightarrow> exhibitions \<Rightarrow> error + (string \<rightharpoonup> jsnum)" where
  "getInitialForms groups exhibitions =
     (let teamRankings = concat (map (\<lambda>(group, groupTeams). map withForm groupTeams) groups)
      in case seedTeams exhibitions teamRankings of
           Inl e \<Rightarrow> Inl e
         | Inr seeded \<Rightarrow>
             Inr (foldl (\<lambda>acc t. acc(ISOCode t \<mapsto> form t)) Map.empty seeded))"

section \<open>The base score\<close>

text \<open>
  \<open>getBaseScore(team1, team2)\<close>. \<open>exhibitions[team]\<close> is \<open>undefined\<close> for a team
  without an entry, and \<open>undefined.reduce\<close> raises the \<open>TypeError\<close>. The inner
  \<open>reduce\<close> has no initial value: it adds all the pieces of the result string, and
  would raise on an empty array.
\<close>

fun reduce_sum :: "jsnum list \<Rightarrow> error + jsnum" where
  "reduce_sum [] = Inl TypeError"
| "reduce_sum (x # xs) = Inr (foldl (\<lambda>sum y. sum + y) x xs)"

fun getTotalPointsForTeam :: "exhibition list \<Rightarrow> jsnum \<Rightarrow> error + jsnum" where
  "getTotalPointsForTeam [] acc = Inr acc"
| "getTotalPointsForTeam (match # matches) acc =
     (case reduce_sum (map Number_js (split_dash (Result match))) of
        Inl e \<Rightarrow> Inl e
      | Inr pointsInMatch \<Rightarrow>
          getTotalPointsForTeam matches (acc + Math_floor (js_div pointsInMatch (Num 2))))"

definition getBaseScore :: "exhibitions \<Rightarrow> string \<Rightarrow> string \<Rightarrow> error + jsnum" where
  "getBaseScore exhibitions team1 team2 =
     (case map_of exhibitions team1 of
        None \<Rightarrow> Inl TypeError
      | Some matches1 \<Rightarrow>
          (case getTotalPointsForTeam matches1 (Num 0) of
             Inl e \<Rightarrow> Inl e
           | Inr total1 \<Rightarrow>
               (case map_of exhibitions team2 of
                  None \<Rightarrow> Inl TypeError
                | Some matches2 \<Rightarrow>
                    (case getTotalPointsForTeam matches2 (Num 0) of
                       Inl e \<Rightarrow> Inl e
                     | Inr total2 \<Rightarrow>
                         Inr (Math_floor (js_div (total1 + total2) (Num 4)) - Num 6)))))"

section \<open>Form update and match simulation\<close>

text \<open>
  \<open>updateTeamForm(team1, team2, score1, score2)\<close> assigns twice to the global table
  \<open>teamForm\<close>; the second assignment reads the table the first one wrote. A code
  without an entry reads as \<open>undefined\<close>.
\<close>

definition updateTeamForm ::
  "'a team_scheme \<Rightarrow> 'b team_scheme \<Rightarrow> jsnum \<Rightarrow> jsnum \<Rightarrow> (string \<rightharpoonup> jsnum) \<Rightarrow> (string \<rightharpoonup> jsnum)" where
  "updateTeamForm team1 team2 score1 score2 teamForm =
     (let formFactor = 0.07;
          teamForm1 = teamForm(ISOCode team1 \<mapsto>
            ToNumber (teamForm (ISOCode team1)) * Num (1 - formFactor)
              + (score1 - score2) * Num formFactor);
          teamForm2 = teamForm1(ISOCode team2 \<mapsto>
            ToNumber (teamForm1 (ISOCode team2)) * Num (1 - formFactor)
              + (score2 - score1) * Num formFactor)
      in teamForm2)"

text \<open>
  The state of a run: the global form table, and the values \<open>Math.random()\<close> is going
  to return, in order.
\<close>

record sim_state =
  form_table :: "string \<rightharpoonup> jsnum"
  draws :: "nat \<Rightarrow> real"

definition Math_random :: "sim_state \<Rightarrow> real \<times> sim_state" where
  "Math_random st = (draws st 0, st\<lparr>draws := (\<lambda>k. draws st (Suc k))\<rparr>)"

text \<open>
  The two scores of \<open>simulateMatch\<close> before rounding, from the base score and the three
  random values in the order they are drawn: the shared random factor, then one for each
  score.
\<close>

definition unroundedScores ::
  "'a team_scheme \<Rightarrow> 'b team_scheme \<Rightarrow> (string \<rightharpoonup> jsnum) \<Rightarrow> jsnum \<Rightarrow> real \<Rightarrow> real \<Rightarrow> real
     \<Rightarrow> jsnum \<times> jsnum" where
  "unroundedScores team1 team2 teamForm baseScore r0 r1 r2 =
     (let rankDiff = Num (real_of_int (FIBARanking team2 - FIBARanking team1)) * Num 0.65;
          formDiff = (ToNumber (teamForm (ISOCode team1)) - ToNumber (teamForm (ISOCode team2)))
                       * Num 0.35;
          randomFactor = Num r0 * Num 10 - Num 4;
          score1 = Math_floor (Num r1 * Num 15) + baseScore + rankDiff + formDiff + randomFactor;
          score2 = Math_floor (Num r2 * Num 15) + baseScore - rankDiff - formDiff - randomFactor
      in (score1, score2))"

text \<open>
  \<open>simulateMatch(team1, team2)\<close>; a team may be \<open>undefined\<close> (an array element that
  is not there), and reading its ranking raises the \<open>TypeError\<close>. The result
  \<open>{ team1: ..., team2: ... }\<close> is the pair of the rounded scores.
\<close>

definition simulateMatch ::
  "exhibitions \<Rightarrow> 'a team_scheme option \<Rightarrow> 'a team_scheme option \<Rightarrow> sim_state
     \<Rightarrow> error + ((jsnum \<times> jsnum) \<times> sim_state)" where
  "simulateMatch exhibitions t1 t2 st =
     (case (t1, t2) of
        (Some team1, Some team2) \<Rightarrow>
          (case getBaseScore exhibitions (ISOCode team1) (ISOCode team2) of
             Inl e \<Rightarrow> Inl e
           | Inr baseScore \<Rightarrow>
               (let (r0, st0) = Math_random st;
                    (r1, st1) = Math_random st0;
                    (r2, st2) = Math_random st1;
                    (score1, score2) =
                      unroundedScores team1 team2 (form_table st) baseScore r0 r1 r2;
                    result = (Math_round score1, Math_round score2)
                in Inr (result,
                     st2\<lparr>form_table :=
                       updateTeamForm team1 team2 (fst result) (snd result) (form_table st2)\<rparr>)))
      | _ \<Rightarrow> Inl TypeError)"

section \<open>The group stage\<close>

text \<open>
  A group match result \<open>{ team1, team2, score1, score2 }\<close>: the two team names and the
  two rounded scores.
\<close>

record group_result =
  r_team1 :: string
  r_team2 :: string
  r_score1 :: jsnum
  r_score2 :: jsnum

type_synonym group_results = "(string \<times> group_result list) list"





section \<open>Standings\<close>

text \<open>
  A team of a group with its record. \<open>points\<close>, \<open>wins\<close> and \<open>losses\<close> start at 0
  and only ever grow by the literals 2 and 1, so they are integers; \<open>scored\<close> and
  \<open>allowed\<close> accumulate match scores.
\<close>

record standing = team +
  points :: int
  scored :: jsnum
  allowed :: jsnum
  wins :: int
  losses :: int

definition initStanding :: "team \<Rightarrow> standing" where
  "initStanding t =
     \<lparr>Team = Team t, ISOCode = ISOCode t, FIBARanking = FIBARanking t,
      points = 0, scored = Num 0, allowed = Num 0, wins = 0, losses = 0\<rparr>"

text \<open>
  \<open>team1\<close> and \<open>team2\<close> of the \<open>forEach\<close> body are elements of \<open>teams\<close> (the same
  one when both names find the same element), mutated in place: \<open>modify i f\<close> applies
  \<open>f\<close> to the element at position \<open>i\<close>.
\<close>

definition modify :: "nat \<Rightarrow> ('a \<Rightarrow> 'a) \<Rightarrow> 'a list \<Rightarrow> 'a list" where
  "modify i f xs = xs[i := f (xs ! i)]"

definition processTeamOneWin :: "nat \<Rightarrow> nat \<Rightarrow> standing list \<Rightarrow> standing list" where
  "processTeamOneWin i j teams =
     (let teams = modify i (\<lambda>t. t\<lparr>points := points t + 2\<rparr>) teams;
          teams = modify i (\<lambda>t. t\<lparr>wins := wins t + 1\<rparr>) teams;
          teams = modify j (\<lambda>t. t\<lparr>losses := losses t + 1\<rparr>) teams
      in teams)"

definition processTeamTwoWin :: "nat \<Rightarrow> nat \<Rightarrow> standing list \<Rightarrow> standing list" where
  "processTeamTwoWin i j teams =
     (let teams = modify j (\<lambda>t. t\<lparr>points := points t + 2\<rparr>) teams;
          teams = modify j (\<lambda>t. t\<lparr>wins := wins t + 1\<rparr>) teams;
          teams = modify i (\<lambda>t. t\<lparr>losses := losses t + 1\<rparr>) teams
      in teams)"

definition processMatch :: "group_result \<Rightarrow> standing list \<Rightarrow> error + standing list" where
  "processMatch match teams =
     (case (find_index (\<lambda>t. Team t = r_team1 match) teams,
            find_index (\<lambda>t. Team t = r_team2 match) teams) of
        (Some i, Some j) \<Rightarrow>
          (let teams = modify i (\<lambda>t. t\<lparr>scored := scored t + r_score1 match\<rparr>) teams;
               teams = modify i (\<lambda>t. t\<lparr>allowed := allowed t + r_score2 match\<rparr>) teams;
               teams = modify j (\<lambda>t. t\<lparr>scored := scored t + r_score2 match\<rparr>) teams;
               teams = modify j (\<lambda>t. t\<lparr>allowed := allowed t + r_score1 match\<rparr>) teams;
               teams =
                 (if js_eq (scored (teams ! i)) (scored (teams ! j))
                  then (if FIBARanking (teams ! i) < FIBARanking (teams ! j)
                        then modify i (\<lambda>t. t\<lparr>scored := scored t + Num 1\<rparr>) teams
                        else modify j (\<lambda>t. t\<lparr>scored := scored t + Num 1\<rparr>) teams)
                  else teams)
           in Inr (if js_gt (r_score1 match) (r_score2 match)
                   then processTeamOneWin i j teams
                   else processTeamTwoWin i j teams))
      | _ \<Rightarrow> Inl TypeError)"

fun processMatches :: "group_result list \<Rightarrow> standing list \<Rightarrow> error + standing list" where
  "processMatches [] teams = Inr teams"
| "processMatches (match # matches) teams =
     (case processMatch match teams of
        Inl e \<Rightarrow> Inl e
      | Inr teams' \<Rightarrow> processMatches matches teams')"

text \<open>
  The comparator \<open>(a, b) => b.points - a.points || (b.scored - b.allowed) - (a.scored -
  a.allowed)\<close>, and \<open>Array.prototype.sort\<close>. The sort is stable and puts \<open>a\<close> after
  \<open>b\<close> when the comparator is positive; a comparator value \<open>NaN\<close> counts as 0. For a
  comparator that orders the elements consistently the result is determined by these
  rules, and insertion computes it; the statements below are about such inputs.
  \<open>undefined\<close> elements go to the end without being compared.
\<close>

definition compareStandings :: "'a standing_scheme \<Rightarrow> 'a standing_scheme \<Rightarrow> jsnum" where
  "compareStandings a b =
     (if points b - points a \<noteq> 0 then Num (of_int (points b - points a))
      else (scored b - allowed b) - (scored a - allowed a))"

fun insert_sorted :: "('a \<Rightarrow> 'a \<Rightarrow> jsnum) \<Rightarrow> 'a \<Rightarrow> 'a list \<Rightarrow> 'a list" where
  "insert_sorted cmp x [] = [x]"
| "insert_sorted cmp x (y # ys) =
     (if js_gt (cmp x y) (Num 0) then y # insert_sorted cmp x ys else x # y # ys)"

definition array_sort :: "('a \<Rightarrow> 'a \<Rightarrow> jsnum) \<Rightarrow> 'a list \<Rightarrow> 'a list" where
  "array_sort cmp xs = foldr (insert_sorted cmp) xs []"

definition array_sort_undefined :: "('a \<Rightarrow> 'a \<Rightarrow> jsnum) \<Rightarrow> 'a option list \<Rightarrow> 'a option list" where
  "array_sort_undefined cmp xs =
     map Some (array_sort cmp (List.map_filter id xs))
       @ filter (\<lambda>x. x = None) xs"

text \<open>
  \<open>rankTeams(groups, results)\<close>: for each group, the standings of its teams after all
  the matches of \<open>results[group]\<close>, sorted. \<open>results[group]\<close> is \<open>undefined\<close> for a
  group without results, and \<open>undefined.forEach\<close> raises the \<open>TypeError\<close>.
\<close>

definition rankGroup :: "team list \<Rightarrow> group_result list \<Rightarrow> error + standing list" where
  "rankGroup groupTeams groupResults =
     (case processMatches groupResults (map initStanding groupTeams) of
        Inl e \<Rightarrow> Inl e
      | Inr teams \<Rightarrow> Inr (array_sort compareStandings teams))"

fun rankTeams :: "groups \<Rightarrow> group_results \<Rightarrow> error + (string \<times> standing list) list" where
  "rankTeams [] results = Inr []"
| "rankTeams ((groupName, groupTeams) # rest) results =
     (case map_of results groupName of
        None \<Rightarrow> Inl TypeError
      | Some groupResults \<Rightarrow>
          (case rankGroup groupTeams groupResults of
             Inl e \<Rightarrow> Inl e
           | Inr teams \<Rightarrow>
               (case rankTeams rest results of
                  Inl e \<Rightarrow> Inl e
                | Inr rankings \<Rightarrow> Inr ((groupName, teams) # rankings))))"

section \<open>Seeding the bracket\<close>

text \<open>
  \<open>getTopEightTeams(rankings)\<close> reads the groups \<open>A\<close>, \<open>B\<close> and \<open>C\<close>; a group
  that is missing raises the \<open>TypeError\<close>, a place that is missing is \<open>undefined\<close>.
\<close>

definition getTopEightTeams ::
  "(string \<times> 'a standing_scheme list) list \<Rightarrow> error + 'a standing_scheme option list" where
  "getTopEightTeams rankings =
     (case (map_of rankings ''A'', map_of rankings ''B'', map_of rankings ''C'') of
        (Some A, Some B, Some C) \<Rightarrow>
          (let rankGroups = array_sort_undefined compareStandings;
               firstPlaceTeams = rankGroups [nth_opt A 0, nth_opt B 0, nth_opt C 0];
               secondPlaceTeams = rankGroups [nth_opt A 1, nth_opt B 1, nth_opt C 1];
               thirdPlaceTeams = rankGroups [nth_opt A 2, nth_opt B 2, nth_opt C 2]
           in Inr (take 8 (firstPlaceTeams @ secondPlaceTeams @ thirdPlaceTeams)))
      | _ \<Rightarrow> Inl TypeError)"

text \<open>
  \<open>getEliminationMatches(teams)\<close>. The first loop pushes \<open>teams[i]\<close> to
  \<open>pots[floor(i / 2)]\<close>, which is \<open>undefined\<close> from the ninth team on (a
  \<open>TypeError\<close>); the second pairs \<open>pots[i][0]\<close> with \<open>pots[3 - i][1]\<close>. An element
  of the arrays may itself be \<open>undefined\<close>: \<open>element xs k\<close> is \<open>xs[k]\<close>.
\<close>

definition element :: "'a option list \<Rightarrow> nat \<Rightarrow> 'a option" where
  "element xs k = (if k < length xs then xs ! k else None)"

fun fillPots :: "nat \<Rightarrow> 'a list \<Rightarrow> 'a list list \<Rightarrow> error + 'a list list" where
  "fillPots i [] pots = Inr pots"
| "fillPots i (t # ts) pots =
     (if i div 2 < length pots
      then fillPots (Suc i) ts (pots[i div 2 := pots ! (i div 2) @ [t]])
      else Inl TypeError)"

definition getEliminationMatches :: "'a option list \<Rightarrow> error + ('a option \<times> 'a option) list" where
  "getEliminationMatches teams =
     (case fillPots 0 teams [[], [], [], []] of
        Inl e \<Rightarrow> Inl e
      | Inr pots \<Rightarrow>
          Inr (map (\<lambda>i. (element (pots ! i) 0, element (pots ! (3 - i)) 1)) [0, 1, 2, 3]))"

section \<open>The knockout stage\<close>

text \<open>
  One played fixture \<open>{ match, result }\<close>, and the object \<open>getEliminationResults\<close>
  returns.
\<close>

type_synonym 'a fixture = "('a option \<times> 'a option) \<times> (jsnum \<times> jsnum)"

record 'a elimination_results =
  quarterfinals :: "'a fixture list"
  semifinals :: "'a fixture list"
  finals :: "'a fixture list"
  bronze :: "'a fixture list"

text \<open>
  The \<open>forEach\<close> over the quarterfinals: each match is simulated, recorded, and its
  winner pushed to the semifinalists; the first team wins when its score is greater.
\<close>

fun playQuarterfinals ::
  "exhibitions \<Rightarrow> ('a team_scheme option \<times> 'a team_scheme option) list
     \<Rightarrow> 'a team_scheme fixture list \<Rightarrow> 'a team_scheme option list \<Rightarrow> sim_state
     \<Rightarrow> error + ('a team_scheme fixture list \<times> 'a team_scheme option list \<times> sim_state)" where
  "playQuarterfinals exhibitions [] played semifinalists st = Inr (played, semifinalists, st)"
| "playQuarterfinals exhibitions (match # matches) played semifinalists st =
     (case simulateMatch exhibitions (fst match) (snd match) st of
        Inl e \<Rightarrow> Inl e
      | Inr (result, st') \<Rightarrow>
          playQuarterfinals exhibitions matches (played @ [(match, result)])
            (semifinalists @ [if js_gt (fst result) (snd result) then fst match else snd match])
            st')"

text \<open>One turn of the loop over the two semifinals, for \<open>i\<close>.\<close>

definition playSemifinal ::
  "exhibitions \<Rightarrow> 'a team_scheme option list \<Rightarrow> nat \<Rightarrow> sim_state
     \<Rightarrow> error + ('a team_scheme fixture \<times> 'a team_scheme option \<times> 'a team_scheme option \<times> sim_state)" where
  "playSemifinal exhibitions semifinalists i st =
     (let t1 = element semifinalists (i * 2);
          t2 = element semifinalists (i * 2 + 1)
      in case simulateMatch exhibitions t1 t2 st of
           Inl e \<Rightarrow> Inl e
         | Inr (result, st') \<Rightarrow>
             Inr (((t1, t2), result),
                  (if js_gt (fst result) (snd result) then t1 else t2),
                  (if js_gt (fst result) (snd result) then t2 else t1),
                  st'))"

definition getEliminationResults ::
  "exhibitions \<Rightarrow> ('a team_scheme option \<times> 'a team_scheme option) list \<Rightarrow> sim_state
     \<Rightarrow> error + ('a team_scheme elimination_results \<times> sim_state)" where
  "getEliminationResults exhibitions quarterfinalMatches st =
     (case playQuarterfinals exhibitions quarterfinalMatches [] [] st of
        Inl e \<Rightarrow> Inl e
      | Inr (playedQuarterfinals, semifinalists, st1) \<Rightarrow>
     (case playSemifinal exhibitions semifinalists 0 st1 of
        Inl e \<Rightarrow> Inl e
      | Inr (semifinal0, finalist0, bronzist0, st2) \<Rightarrow>
     (case playSemifinal exhibitions semifinalists 1 st2 of
        Inl e \<Rightarrow> Inl e
      | Inr (semifinal1, finalist1, bronzist1, st3) \<Rightarrow>
     (case simulateMatch exhibitions finalist0 finalist1 st3 of
        Inl e \<Rightarrow> Inl e
      | Inr (finalResult, st4) \<Rightarrow>
     (case simulateMatch exhibitions bronzist0 bronzist1 st4 of
        Inl e \<Rightarrow> Inl e
      | Inr (bronzeResult, st5) \<Rightarrow>
          Inr (\<lparr>quarterfinals = playedQuarterfinals,
                semifinals = [semifinal0, semifinal1],
                finals = [((finalist0, finalist1), finalResult)],
                bronze = [((bronzist0, bronzist1), bronzeResult)]\<rparr>, st5))))))"

section \<open>Notions used to state the properties\<close>

text \<open>
  A result string of the form \<open>"<int>-<int>"\<close>: decimal digits, one \<open>-\<close>, decimal
  digits. \<open>home_digits\<close> and \<open>away_digits\<close> are the two numerals.
\<close>

definition home_digits :: "string \<Rightarrow> string" where
  "home_digits s = takeWhile (\<lambda>c. c \<noteq> CHR ''-'') s"

definition away_digits :: "string \<Rightarrow> string" where
  "away_digits s = drop (Suc (length (home_digits s))) s"

definition wellformed_result :: "string \<Rightarrow> bool" where
  "wellformed_result s =
     (home_digits s \<noteq> [] \<and> away_digits s \<noteq> []
      \<and> list_all is_digit (home_digits s) \<and> list_all is_digit (away_digits s))"

text \<open>
  Half of the points of one exhibition match, rounded down, and their sum over the matches
  of a team.
\<close>

definition half_total :: "exhibition \<Rightarrow> nat" where
  "half_total match =
     (decimal (home_digits (Result match)) + decimal (away_digits (Result match))) div 2"

definition team_total :: "exhibition list \<Rightarrow> nat" where
  "team_total matches = sum_list (map half_total matches)"

text \<open>
  The base score in the words of the specification: each team's value is the average,
  across its matches, of the half totals, and the base score is the floor of a quarter of
  the two values' sum, minus 6.
\<close>

definition spec_team_average :: "exhibition list \<Rightarrow> real" where
  "spec_team_average matches = real (team_total matches) / real (length matches)"

definition spec_baseScore :: "exhibition list \<Rightarrow> exhibition list \<Rightarrow> int" where
  "spec_baseScore matches1 matches2 =
     \<lfloor>(spec_team_average matches1 + spec_team_average matches2) / 4\<rfloor> - 6"

text \<open>
  The other reading of the same sentence, "not rounded per match, summed then floored
  once": the halves are not rounded, and the only floor is the last one.
\<close>

definition half_points :: "exhibition \<Rightarrow> real" where
  "half_points match =
     (real (decimal (home_digits (Result match))) + real (decimal (away_digits (Result match)))) / 2"

definition spec_baseScore_floored_once :: "exhibition list \<Rightarrow> exhibition list \<Rightarrow> int" where
  "spec_baseScore_floored_once matches1 matches2 =
     \<lfloor>(sum_list (map half_points matches1) + sum_list (map half_points matches2)) / 4\<rfloor> - 6"

text \<open>
  The codes of the teams of all groups; exhibition data whose keys and opponents are all
  among them; the characters that can occur in a string that \<open>Number\<close> reads as a
  number; and an exhibition match whose result has a piece with another character, which
  \<open>Number\<close> therefore reads as \<open>NaN\<close>.
\<close>

definition group_codes :: "groups \<Rightarrow> string set" where
  "group_codes groups = ISOCode ` (\<Union>(group, groupTeams) \<in> set groups. set groupTeams)"

definition references_known :: "groups \<Rightarrow> exhibitions \<Rightarrow> bool" where
  "references_known groups exhibitions =
     list_all (\<lambda>(code, matches). code \<in> group_codes groups
        \<and> list_all (\<lambda>match. Opponent match \<in> group_codes groups) matches) exhibitions"

definition literal_char :: "char \<Rightarrow> bool" where
  "literal_char c =
     (let n = (of_char c :: nat)
      in (48 \<le> n \<and> n \<le> 57) \<or> (65 \<le> n \<and> n \<le> 90) \<or> (97 \<le> n \<and> n \<le> 122)
         \<or> n = 43 \<or> n = 45 \<or> n = 46 \<or> (9 \<le> n \<and> n \<le> 13) \<or> n = 32 \<or> 128 \<le> n)"

definition unparsed :: "exhibition \<Rightarrow> bool" where
  "unparsed match =
     list_ex (\<lambda>piece. list_ex (\<lambda>c. \<not> literal_char c) piece) (split_dash (Result match))"

text \<open>
  The order of the standings: more points first, and among equal points the greater
  difference \<open>scored - allowed\<close> first. A number is numeric when it is not \<open>NaN\<close>.
\<close>

definition ranked_before :: "'a standing_scheme \<Rightarrow> 'a standing_scheme \<Rightarrow> bool" where
  "ranked_before a b =
     (points b < points a
      \<or> (points a = points b \<and> js_ge (scored a - allowed a) (scored b - allowed b)))"

definition numeric :: "jsnum \<Rightarrow> bool" where
  "numeric x = (x \<noteq> NaN)"

definition numeric_columns :: "'a standing_scheme \<Rightarrow> bool" where
  "numeric_columns t = (numeric (scored t) \<and> numeric (allowed t))"


text \<open>
  The team that advances from a played match and the one that does not, and a team slot
  that holds a team with an exhibition entry.
\<close>

definition winner :: "'a option \<times> 'a option \<Rightarrow> jsnum \<times> jsnum \<Rightarrow> 'a option" where
  "winner pair result = (if js_gt (fst result) (snd result) then fst pair else snd pair)"

definition loser :: "'a option \<times> 'a option \<Rightarrow> jsnum \<times> jsnum \<Rightarrow> 'a option" where
  "loser pair result = (if js_gt (fst result) (snd result) then snd pair else fst pair)"

definition has_history :: "exhibitions \<Rightarrow> 'a team_scheme option \<Rightarrow> bool" where
  "has_history exhibitions slot =
     (case slot of None \<Rightarrow> False | Some t \<Rightarrow> map_of exhibitions (ISOCode t) \<noteq> None)"

section \<open>Sample data\<close>

definition teamA :: team where
  "teamA = \<lparr>Team = ''Alpha'', ISOCode = ''AAA'', FIBARanking = 5\<rparr>"

definition teamB :: team where
  "teamB = \<lparr>Team = ''Bravo'', ISOCode = ''BBB'', FIBARanking = 7\<rparr>"

definition teamC :: team where
  "teamC = \<lparr>Team = ''Charlie'', ISOCode = ''CCC'', FIBARanking = 14\<rparr>"

definition teamD :: team where
  "teamD = \<lparr>Team = ''Delta'', ISOCode = ''DDD'', FIBARanking = 2\<rparr>"

definition sample_groups :: groups where
  "sample_groups = [(''A'', [teamA, teamB, teamC, teamD])]"

definition sample_exhibitions :: exhibitions where
  "sample_exhibitions =
     [(''AAA'', [\<lparr>Opponent = ''BBB'', Result = ''85-79''\<rparr>, \<lparr>Opponent = ''CCC'', Result = ''90-71''\<rparr>]),
      (''BBB'', [\<lparr>Opponent = ''AAA'', Result = ''80-75''\<rparr>, \<lparr>Opponent = ''DDD'', Result = ''66-91''\<rparr>]),
      (''CCC'', [\<lparr>Opponent = ''DDD'', Result = ''70-88''\<rparr>]),
      (''DDD'', [\<lparr>Opponent = ''CCC'', Result = ''95-60''\<rparr>])]"

text \<open>One result written with a colon, and one opponent that is in no group.\<close>

definition colon_exhibitions :: exhibitions where
  "colon_exhibitions =
     [(''AAA'', [\<lparr>Opponent = ''BBB'', Result = ''85:79''\<rparr>]),
      (''BBB'', [\<lparr>Opponent = ''AAA'', Result = ''80-75''\<rparr>])]"

definition stranger_exhibitions :: exhibitions where
  "stranger_exhibitions =
     [(''AAA'', [\<lparr>Opponent = ''ZZZ'', Result = ''85-79''\<rparr>])]"

definition two_draws :: "exhibition list" where
  "two_draws =
     [\<lparr>Opponent = ''BBB'', Result = ''80-80''\<rparr>, \<lparr>Opponent = ''BBB'', Result = ''80-80''\<rparr>]"

definition odd_totals_low :: "exhibition list" where
  "odd_totals_low =
     [\<lparr>Opponent = ''BBB'', Result = ''81-80''\<rparr>, \<lparr>Opponent = ''BBB'', Result = ''81-80''\<rparr>]"

definition odd_totals_high :: "exhibition list" where
  "odd_totals_high =
     [\<lparr>Opponent = ''AAA'', Result = ''82-81''\<rparr>, \<lparr>Opponent = ''AAA'', Result = ''82-81''\<rparr>]"

definition sample_state :: sim_state where
  "sample_state = \<lparr>form_table = [''AAA'' \<mapsto> Num 2, ''BBB'' \<mapsto> Num (- 1)], draws = (\<lambda>k. 1 / 2)\<rparr>"



definition sample_teams :: "team list" where
  "sample_teams = [teamA, teamB, teamC, teamD]"

definition sample_results :: "group_result list" where
  "sample_results =
     [\<lparr>r_team1 = ''Alpha'', r_team2 = ''Bravo'', r_score1 = Num 74, r_score2 = Num 83\<rparr>,
      \<lparr>r_team1 = ''Charlie'', r_team2 = ''Delta'', r_score1 = Num 71, r_score2 = Num 100\<rparr>,
      \<lparr>r_team1 = ''Alpha'', r_team2 = ''Charlie'', r_score1 = Num 84, r_score2 = Num 77\<rparr>,
      \<lparr>r_team1 = ''Bravo'', r_team2 = ''Delta'', r_score1 = Num 80, r_score2 = Num 78\<rparr>,
      \<lparr>r_team1 = ''Alpha'', r_team2 = ''Delta'', r_score1 = Num 77, r_score2 = Num 83\<rparr>,
      \<lparr>r_team1 = ''Bravo'', r_team2 = ''Charlie'', r_score1 = Num 92, r_score2 = Num 69\<rparr>]"

definition drawn_match :: group_result where
  "drawn_match = \<lparr>r_team1 = ''Alpha'', r_team2 = ''Bravo'', r_score1 = Num 80, r_score2 = Num 80\<rparr>"

definition standing_of :: "team \<Rightarrow> int \<Rightarrow> real \<Rightarrow> real \<Rightarrow> int \<Rightarrow> int \<Rightarrow> standing" where
  "standing_of t p s a w l =
     \<lparr>Team = Team t, ISOCode = ISOCode t, FIBARanking = FIBARanking t,
      points = p, scored = Num s, allowed = Num a, wins = w, losses = l\<rparr>"

definition sample_standing :: "string \<Rightarrow> int \<Rightarrow> int \<Rightarrow> real \<Rightarrow> real \<Rightarrow> standing" where
  "sample_standing name rank p s a =
     \<lparr>Team = name, ISOCode = name, FIBARanking = rank,
      points = p, scored = Num s, allowed = Num a, wins = p div 2, losses = 3 - p div 2\<rparr>"

definition groupA_standings :: "standing list" where
  "groupA_standings =
     [sample_standing ''A1'' 3 6 250 220, sample_standing ''A2'' 8 4 240 235,
      sample_standing ''A3'' 12 2 230 240, sample_standing ''A4'' 20 0 210 235]"

definition groupB_standings :: "standing list" where
  "groupB_standings =
     [sample_standing ''B1'' 1 6 260 220, sample_standing ''B2'' 9 4 240 230,
      sample_standing ''B3'' 13 2 235 240, sample_standing ''B4'' 21 0 205 250]"

definition groupC_standings :: "standing list" where
  "groupC_standings =
     [sample_standing ''C1'' 2 6 255 230, sample_standing ''C2'' 7 4 245 240,
      sample_standing ''C3'' 15 2 220 240, sample_standing ''C4'' 30 0 215 225]"

definition sample_rankings :: "(string \<times> standing list) list" where
  "sample_rankings =
     [(''A'', groupA_standings), (''B'', groupB_standings), (''C'', groupC_standings)]"

definition teamE :: team where
  "teamE = \<lparr>Team = ''Echo'', ISOCode = ''EEE'', FIBARanking = 1\<rparr>"

definition teamF :: team where
  "teamF = \<lparr>Team = ''Foxtrot'', ISOCode = ''FFF'', FIBARanking = 9\<rparr>"

definition teamG :: team where
  "teamG = \<lparr>Team = ''Golf'', ISOCode = ''GGG'', FIBARanking = 11\<rparr>"

definition teamH :: team where
  "teamH = \<lparr>Team = ''Hotel'', ISOCode = ''HHH'', FIBARanking = 4\<rparr>"

definition knockout_exhibitions :: exhibitions where
  "knockout_exhibitions =
     sample_exhibitions @
     [(''EEE'', [\<lparr>Opponent = ''FFF'', Result = ''88-70''\<rparr>]),
      (''FFF'', [\<lparr>Opponent = ''EEE'', Result = ''70-88''\<rparr>]),
      (''GGG'', [\<lparr>Opponent = ''HHH'', Result = ''75-82''\<rparr>]),
      (''HHH'', [\<lparr>Opponent = ''GGG'', Result = ''82-75''\<rparr>])]"

definition sample_quarterfinals :: "(team option \<times> team option) list" where
  "sample_quarterfinals =
     [(Some teamE, Some teamC), (Some teamA, Some teamB),
      (Some teamH, Some teamG), (Some teamD, Some teamF)]"

section \<open>Properties of the expected-margin model\<close>

lemma round_minus_four_thirds: "round (- (4 / 3) :: real) = - 1"
  by (simp add: round_def)

lemma expectedPointDiff_large_gap:
  "10 < \<bar>rankHome - rankAway\<bar> \<Longrightarrow> expectedPointDiff rankHome rankAway score1 score2 = Num 0"
  by (simp add: expectedPointDiff_def Let_def)

text \<open>
  C1. With a rank gap above 10 the function is documented to return
  \<open>round(actualDiff / 3)\<close> when the favourite wins by a large margin: its own example
  \<open>expectedPointDiff(10, 30, 90, 60)\<close> is described as returning a positive margin,
  which would be \<open>round(30 / 3) = 10\<close>. The code returns 0 there, because the
  comparison against the unassigned \<open>margin\<close> is false.
\<close>

theorem expectedPointDiff_large_gap_example:
  "expectedPointDiff 10 30 (Num 90) (Num 60) = Num 0
   \<and> Math_round (js_div (Num 90 - Num 60) (Num 3)) = Num 10"
  by (simp add: expectedPointDiff_def Let_def)

text \<open>
  C8. With a rank gap of at most 10 the function returns
  \<open>round((actualDiff - expected) / 3)\<close>, where \<open>actualDiff\<close> is the margin of
  the team with the numerically lower rank (of the away team when the ranks are equal) and
  \<open>expected\<close> is the curve of the specification; for equal ranks and equal numeric
  scores that is \<open>round((0 - 4) / 3) = -1\<close>.
\<close>

theorem expectedPointDiff_close_ranks:
  "(\<bar>rankHome - rankAway\<bar> \<le> 10 \<longrightarrow>
      expectedPointDiff rankHome rankAway score1 score2 =
        Math_round (js_div
          ((if rankHome < rankAway then score1 - score2 else score2 - score1)
             - Num (expected_curve \<bar>rankHome - rankAway\<bar>))
          (Num 3)))
   \<and> expectedPointDiff r r (Num s) (Num s) = Math_round (js_div (Num (0 - 4)) (Num 3))
   \<and> expectedPointDiff r r (Num s) (Num s) = Num (- 1)"
proof -
  have curve: "Num 4 + Num (30 - 4) * Math_pow (Num (real_of_int g / 30)) (Num 1.5)
      = Num (expected_curve g)" if "0 \<le> g" for g :: int
    using that by (simp add: expected_curve_def)
  have close: "expectedPointDiff rankHome rankAway score1 score2 =
        Math_round (js_div
          ((if rankHome < rankAway then score1 - score2 else score2 - score1)
             - Num (expected_curve \<bar>rankHome - rankAway\<bar>))
          (Num 3))" if "\<bar>rankHome - rankAway\<bar> \<le> 10"
    using that curve [of "\<bar>rankHome - rankAway\<bar>"]
    by (simp add: expectedPointDiff_def Let_def)
  note r43 = round_minus_four_thirds
  have equal: "expectedPointDiff r r (Num s) (Num s) = Num (- 1)"
    by (simp add: expectedPointDiff_def Let_def r43)
  have lit: "Math_round (js_div (Num (0 - 4)) (Num 3)) = Num (- 1)"
    by (simp add: r43)
  show ?thesis
    using close equal lit by simp
qed

theorem expectedPointDiff_close_ranks_witness:
  "\<bar>(5::int) - 7\<bar> \<le> 10
   \<and> expectedPointDiff 5 7 (Num 100) (Num 98) =
       Math_round (js_div ((Num 100 - Num 98) - Num (expected_curve 2)) (Num 3))
   \<and> expectedPointDiff 3 3 (Num 80) (Num 80) = Num (- 1)"
  using expectedPointDiff_close_ranks [of 5 7 "Num 100" "Num 98" 3 80]
  by (simp add: round_minus_four_thirds)

section \<open>Arithmetic with \<open>NaN\<close>\<close>

lemma NaN_plus [simp]: "NaN + x = NaN" "x + NaN = NaN" for x :: jsnum
  by (cases x; simp)+

lemma NaN_minus [simp]: "NaN - x = NaN" "x - NaN = NaN" for x :: jsnum
  by (cases x; simp)+

lemma NaN_times [simp]: "NaN * x = NaN" "x * NaN = NaN" for x :: jsnum
  by (cases x; simp)+

lemma js_div_NaN [simp]: "js_div NaN x = NaN"
  by (cases x) simp_all

lemma jsnum_neg_diff: "(score2 :: jsnum) - score1 = Num 0 - (score1 - score2)"
  by (cases score1; cases score2) simp_all

lemma foldl_plus_NaN: "foldl (\<lambda>sum y. sum + y) NaN xs = NaN"
  by (induction xs) simp_all

lemma foldl_plus_has_NaN: "NaN \<in> set xs \<Longrightarrow> foldl (\<lambda>sum y. sum + y) x xs = NaN"
  by (induction xs arbitrary: x) (auto simp: foldl_plus_NaN)

lemma reduce_sum_has_NaN: "NaN \<in> set xs \<Longrightarrow> reduce_sum xs = Inr NaN"
  by (cases xs) (auto simp: foldl_plus_NaN foldl_plus_has_NaN)

section \<open>Properties of the base score\<close>

subsection \<open>Splitting and reading a result string\<close>

lemma split_dash_nonempty: "split_dash s \<noteq> []"
  by (induction s) (auto split: list.splits)

lemma split_dash_no_dash: "CHR ''-'' \<notin> set s \<Longrightarrow> split_dash s = [s]"
  by (induction s) auto

lemma split_dash_append:
  "CHR ''-'' \<notin> set a \<Longrightarrow> split_dash (a @ CHR ''-'' # b) = a # split_dash b"
  by (induction a) auto

lemma digits_no_dash: "list_all is_digit s \<Longrightarrow> CHR ''-'' \<notin> set s"
  by (auto simp: list_all_iff is_digit_def)

lemma wellformed_result_decomp:
  assumes "wellformed_result s"
  shows "s = home_digits s @ CHR ''-'' # away_digits s"
proof -
  let ?P = "\<lambda>c. c \<noteq> CHR ''-''"
  from assms have ne: "away_digits s \<noteq> []" by (simp add: wellformed_result_def)
  have s: "s = takeWhile ?P s @ dropWhile ?P s" by simp
  have away: "away_digits s = drop 1 (dropWhile ?P s)"
    unfolding away_digits_def home_digits_def
    by (metis One_nat_def drop_drop dropWhile_eq_drop plus_1_eq_Suc)
  have dne: "dropWhile ?P s \<noteq> []"
  proof
    assume "dropWhile ?P s = []"
    with away ne show False by simp
  qed
  then have "hd (dropWhile ?P s) = CHR ''-''"
    using hd_dropWhile [of ?P s] by simp
  with dne have "dropWhile ?P s = CHR ''-'' # away_digits s"
    using away by (cases "dropWhile ?P s") simp_all
  with s show ?thesis by (simp add: home_digits_def)
qed

lemma wellformed_result_pieces:
  assumes "wellformed_result s"
  shows "map Number_js (split_dash s)
         = [Num (real (decimal (home_digits s))), Num (real (decimal (away_digits s)))]"
proof -
  from assms have d: "list_all is_digit (home_digits s)" "list_all is_digit (away_digits s)"
    by (simp_all add: wellformed_result_def)
  have "split_dash s = split_dash (home_digits s @ CHR ''-'' # away_digits s)"
    using wellformed_result_decomp [OF assms] by simp
  also have "\<dots> = [home_digits s, away_digits s]"
    using d by (simp add: split_dash_append split_dash_no_dash digits_no_dash)
  finally show ?thesis using d by (simp add: Number_js_def)
qed

lemma reduce_sum_pieces: "\<exists>p. reduce_sum (map Number_js (split_dash s)) = Inr p"
  by (cases "split_dash s") (simp_all add: split_dash_nonempty)

subsection \<open>The total of a team\<close>

lemma half_floor: "\<lfloor>(real a + real b) / 2\<rfloor> = int ((a + b) div 2)"
proof -
  have "\<lfloor>real (a + b) / real 2\<rfloor> = int ((a + b) div 2)"
    by (rule floor_divide_of_nat_eq)
  then show ?thesis by simp
qed

lemma quarter_floor: "\<lfloor>(real a + real b) / 4\<rfloor> = (int a + int b) div 4"
proof -
  have "\<lfloor>real (a + b) / real 4\<rfloor> = int ((a + b) div 4)"
    by (rule floor_divide_of_nat_eq)
  then show ?thesis by (simp add: zdiv_int)
qed

lemma getTotalPointsForTeam_wellformed:
  "\<forall>m \<in> set matches. wellformed_result (Result m) \<Longrightarrow>
   getTotalPointsForTeam matches (Num (real acc)) = Inr (Num (real (acc + team_total matches)))"
proof (induction matches arbitrary: acc)
  case Nil
  then show ?case by (simp add: team_total_def)
next
  case (Cons m matches)
  then have wf: "wellformed_result (Result m)" by simp
  have step: "getTotalPointsForTeam (m # matches) (Num (real acc))
      = getTotalPointsForTeam matches (Num (real (acc + half_total m)))"
    by (simp add: wellformed_result_pieces [OF wf] half_floor half_total_def)
  show ?case
    using Cons.IH [of "acc + half_total m"] Cons.prems
    by (simp only: step) (simp add: team_total_def add.assoc)
qed

lemma getTotalPointsForTeam_returns: "\<exists>total. getTotalPointsForTeam matches acc = Inr total"
proof (induction matches arbitrary: acc)
  case Nil
  then show ?case by simp
next
  case (Cons m matches)
  obtain p where "reduce_sum (map Number_js (split_dash (Result m))) = Inr p"
    using reduce_sum_pieces by blast
  then show ?case using Cons.IH by simp
qed

lemma getTotalPointsForTeam_NaN_acc: "getTotalPointsForTeam matches NaN = Inr NaN"
proof (induction matches)
  case Nil
  then show ?case by simp
next
  case (Cons m matches)
  obtain p where "reduce_sum (map Number_js (split_dash (Result m))) = Inr p"
    using reduce_sum_pieces by blast
  then show ?case using Cons.IH by simp
qed

lemma unparsed_NaN:
  assumes "unparsed match"
  shows "NaN \<in> set (map Number_js (split_dash (Result match)))"
proof -
  from assms obtain piece c where piece: "piece \<in> set (split_dash (Result match))"
    and c: "c \<in> set piece" "\<not> literal_char c"
    by (auto simp: unparsed_def list_ex_iff)
  from c(2) have "\<not> is_digit c"
    by (auto simp: literal_char_def is_digit_def Let_def)
  with c(1) have "Number_js piece = NaN"
    by (auto simp: Number_js_def list_all_iff)
  with piece show ?thesis by force
qed

lemma getTotalPointsForTeam_unparsed:
  "\<exists>m \<in> set matches. unparsed m \<Longrightarrow> getTotalPointsForTeam matches acc = Inr NaN"
proof (induction matches arbitrary: acc)
  case Nil
  then show ?case by simp
next
  case (Cons m matches)
  show ?case
  proof (cases "unparsed m")
    case True
    then have "reduce_sum (map Number_js (split_dash (Result m))) = Inr NaN"
      by (intro reduce_sum_has_NaN unparsed_NaN)
    then show ?thesis by (simp add: getTotalPointsForTeam_NaN_acc)
  next
    case False
    with Cons.prems have rest: "\<exists>m \<in> set matches. unparsed m" by auto
    obtain p where "reduce_sum (map Number_js (split_dash (Result m))) = Inr p"
      using reduce_sum_pieces by blast
    then show ?thesis using Cons.IH [OF rest] by simp
  qed
qed

subsection \<open>The base score of two teams\<close>

lemma getBaseScore_aborts_iff:
  "getBaseScore exhibitions team1 team2 = Inl TypeError
   \<longleftrightarrow> map_of exhibitions team1 = None \<or> map_of exhibitions team2 = None"
proof (cases "map_of exhibitions team1")
  case None
  then show ?thesis by (simp add: getBaseScore_def)
next
  case (Some matches1)
  obtain total1 where 1: "getTotalPointsForTeam matches1 (Num 0) = Inr total1"
    using getTotalPointsForTeam_returns by blast
  show ?thesis
  proof (cases "map_of exhibitions team2")
    case None
    then show ?thesis using Some 1 by (simp add: getBaseScore_def)
  next
    case (Some matches2)
    obtain total2 where 2: "getTotalPointsForTeam matches2 (Num 0) = Inr total2"
      using getTotalPointsForTeam_returns by blast
    show ?thesis using \<open>map_of exhibitions team1 = Some matches1\<close> Some 1 2
      by (simp add: getBaseScore_def)
  qed
qed

lemma getBaseScore_unparsed:
  assumes "map_of exhibitions team1 = Some matches1" "map_of exhibitions team2 = Some matches2"
    and "\<exists>m \<in> set matches1 \<union> set matches2. unparsed m"
  shows "getBaseScore exhibitions team1 team2 = Inr NaN"
proof -
  obtain total1 where 1: "getTotalPointsForTeam matches1 (Num 0) = Inr total1"
    using getTotalPointsForTeam_returns by blast
  obtain total2 where 2: "getTotalPointsForTeam matches2 (Num 0) = Inr total2"
    using getTotalPointsForTeam_returns by blast
  from assms(3) have "total1 = NaN \<or> total2 = NaN"
    using getTotalPointsForTeam_unparsed [of matches1 "Num 0"]
      getTotalPointsForTeam_unparsed [of matches2 "Num 0"] 1 2 by auto
  then show ?thesis
    using assms(1,2) 1 2 by (auto simp: getBaseScore_def)
qed

text \<open>
  C3, as the code has it. For two teams with exhibition histories whose results all have
  the form \<open>"<int>-<int>"\<close>, \<open>getBaseScore\<close> is \<open>floor((T1 + T2) / 4) - 6\<close>, where
  \<open>Ti\<close> is the sum (not the average) over the team's matches of the match's points
  halved and rounded down match by match.
\<close>

theorem getBaseScore_sum_of_half_totals:
  "map_of exhibitions team1 = Some matches1 \<and> map_of exhibitions team2 = Some matches2
     \<and> list_all (\<lambda>m. wellformed_result (Result m)) (matches1 @ matches2)
   \<longrightarrow> getBaseScore exhibitions team1 team2
         = Inr (Num (of_int ((int (team_total matches1) + int (team_total matches2)) div 4 - 6)))"
proof (intro impI, elim conjE)
  assume m: "map_of exhibitions team1 = Some matches1" "map_of exhibitions team2 = Some matches2"
    and wf: "list_all (\<lambda>m. wellformed_result (Result m)) (matches1 @ matches2)"
  have 1: "getTotalPointsForTeam matches1 (Num 0) = Inr (Num (real (team_total matches1)))"
    using getTotalPointsForTeam_wellformed [of matches1 0] wf by (simp add: list_all_iff)
  have 2: "getTotalPointsForTeam matches2 (Num 0) = Inr (Num (real (team_total matches2)))"
    using getTotalPointsForTeam_wellformed [of matches2 0] wf by (simp add: list_all_iff)
  show "getBaseScore exhibitions team1 team2
         = Inr (Num (of_int ((int (team_total matches1) + int (team_total matches2)) div 4 - 6)))"
    by (simp add: getBaseScore_def m 1 2 quarter_floor)
qed

lemmas parse_defs = Number_js_def is_digit_def decimal_def home_digits_def away_digits_def
  wellformed_result_def half_total_def team_total_def

theorem getBaseScore_sum_of_half_totals_witness:
  "map_of sample_exhibitions ''AAA''
     = Some [\<lparr>Opponent = ''BBB'', Result = ''85-79''\<rparr>, \<lparr>Opponent = ''CCC'', Result = ''90-71''\<rparr>]
   \<and> map_of sample_exhibitions ''BBB''
     = Some [\<lparr>Opponent = ''AAA'', Result = ''80-75''\<rparr>, \<lparr>Opponent = ''DDD'', Result = ''66-91''\<rparr>]
   \<and> list_all (\<lambda>m. wellformed_result (Result m))
       [\<lparr>Opponent = ''BBB'', Result = ''85-79''\<rparr>, \<lparr>Opponent = ''CCC'', Result = ''90-71''\<rparr>,
        \<lparr>Opponent = ''AAA'', Result = ''80-75''\<rparr>, \<lparr>Opponent = ''DDD'', Result = ''66-91''\<rparr>]
   \<and> getBaseScore sample_exhibitions ''AAA'' ''BBB'' = Inr (Num 73)"
  using getBaseScore_sum_of_half_totals [of sample_exhibitions "''AAA''"
      "[\<lparr>Opponent = ''BBB'', Result = ''85-79''\<rparr>, \<lparr>Opponent = ''CCC'', Result = ''90-71''\<rparr>]"
      "''BBB''"
      "[\<lparr>Opponent = ''AAA'', Result = ''80-75''\<rparr>, \<lparr>Opponent = ''DDD'', Result = ''66-91''\<rparr>]"]
  by (simp add: sample_exhibitions_def parse_defs)

text \<open>
  The claim as the specification words it, with each team's value the average across its
  matches, fails for two teams that each played two 80-80 exhibition matches: the code
  adds up 4 times 80 and returns \<open>320 div 4 - 6 = 74\<close>, the averages are 80 each and
  would give \<open>160 div 4 - 6 = 34\<close>. (All totals are even here, so where the halves are
  rounded makes no difference.) And the halves are rounded match by match: with the results
  81-80, 81-80 for one team and 82-81, 82-81 for the other the code adds
  \<open>80 + 80 + 81 + 81 = 322\<close> and returns \<open>322 div 4 - 6 = 74\<close>, where the unrounded
  halves add up to 324 and one floor at the end would give \<open>81 - 6 = 75\<close>.
\<close>

theorem getBaseScore_average_counterexample:
  "getBaseScore [(''AAA'', two_draws), (''BBB'', two_draws)] ''AAA'' ''BBB'' = Inr (Num 74)
   \<and> spec_baseScore two_draws two_draws = 34
   \<and> getBaseScore [(''AAA'', two_draws), (''BBB'', two_draws)] ''AAA'' ''BBB''
       \<noteq> Inr (Num (of_int (spec_baseScore two_draws two_draws)))
   \<and> getBaseScore [(''AAA'', odd_totals_low), (''BBB'', odd_totals_high)] ''AAA'' ''BBB''
       = Inr (Num 74)
   \<and> spec_baseScore_floored_once odd_totals_low odd_totals_high = 75"
  by (simp add: getBaseScore_def two_draws_def odd_totals_low_def odd_totals_high_def
      spec_baseScore_def spec_team_average_def spec_baseScore_floored_once_def half_points_def
      parse_defs)

section \<open>Properties of the form update\<close>

lemma updateTeamForm_first:
  "ISOCode team1 \<noteq> ISOCode team2 \<Longrightarrow>
   updateTeamForm team1 team2 score1 score2 teamForm (ISOCode team1) =
     Some (ToNumber (teamForm (ISOCode team1)) * Num 0.93 + (score1 - score2) * Num 0.07)"
  by (simp add: updateTeamForm_def Let_def)

lemma updateTeamForm_second:
  "ISOCode team1 \<noteq> ISOCode team2 \<Longrightarrow>
   updateTeamForm team1 team2 score1 score2 teamForm (ISOCode team2) =
     Some (ToNumber (teamForm (ISOCode team2)) * Num 0.93 + (score2 - score1) * Num 0.07)"
  by (simp add: updateTeamForm_def Let_def)

lemma updateTeamForm_draws_first:
  assumes "ISOCode team1 \<noteq> ISOCode team2"
  shows "teamForm (ISOCode team1) = Some (Num f) \<Longrightarrow>
    fold (\<lambda>s. updateTeamForm team1 team2 (Num s) (Num s)) ss teamForm (ISOCode team1)
      = Some (Num (f * 0.93 ^ length ss))"
proof (induction ss arbitrary: teamForm f)
  case Nil
  then show ?case by simp
next
  case (Cons s ss)
  have "updateTeamForm team1 team2 (Num s) (Num s) teamForm (ISOCode team1) = Some (Num (f * 0.93))"
    using updateTeamForm_first [OF assms, of "Num s" "Num s" teamForm] Cons.prems by simp
  from Cons.IH [of "updateTeamForm team1 team2 (Num s) (Num s) teamForm" "f * 0.93", OF this]
  show ?case by (simp add: mult.assoc)
qed

lemma updateTeamForm_draws_second:
  assumes "ISOCode team1 \<noteq> ISOCode team2"
  shows "teamForm (ISOCode team2) = Some (Num f) \<Longrightarrow>
    fold (\<lambda>s. updateTeamForm team1 team2 (Num s) (Num s)) ss teamForm (ISOCode team2)
      = Some (Num (f * 0.93 ^ length ss))"
proof (induction ss arbitrary: teamForm f)
  case Nil
  then show ?case by simp
next
  case (Cons s ss)
  have "updateTeamForm team1 team2 (Num s) (Num s) teamForm (ISOCode team2) = Some (Num (f * 0.93))"
    using updateTeamForm_second [OF assms, of "Num s" "Num s" teamForm] Cons.prems by simp
  from Cons.IH [of "updateTeamForm team1 team2 (Num s) (Num s) teamForm" "f * 0.93", OF this]
  show ?case by (simp add: mult.assoc)
qed

lemma decay_limit: "(\<lambda>n. f * 0.93 ^ n) \<longlonglongrightarrow> (0::real)"
proof -
  have "(\<lambda>n. (0.93::real) ^ n) \<longlonglongrightarrow> 0"
    by (rule LIMSEQ_realpow_zero) simp_all
  from tendsto_mult_left [OF this, of f] show ?thesis by simp
qed

text \<open>
  C9. For two teams with different codes, \<open>updateTeamForm\<close> sets each team's form to
  0.93 times its old form plus 0.07 times its own point difference, and the two
  differences are negatives of each other. After any sequence \<open>ss\<close> of matches that each
  end with equal scores, a form that was the number \<open>f\<close> is \<open>f \<times> 0.93^n\<close> with
  \<open>n\<close> the number of matches: never 0 when \<open>f\<close> is not 0, and tending to 0.
  (Numbers are reals here: the statement is about the smoothing rule, not about the
  rounding of doubles.)
\<close>

theorem updateTeamForm_smoothing:
  "ISOCode team1 \<noteq> ISOCode team2 \<longrightarrow>
     updateTeamForm team1 team2 score1 score2 teamForm (ISOCode team1)
       = Some (ToNumber (teamForm (ISOCode team1)) * Num 0.93 + (score1 - score2) * Num 0.07)
   \<and> updateTeamForm team1 team2 score1 score2 teamForm (ISOCode team2)
       = Some (ToNumber (teamForm (ISOCode team2)) * Num 0.93 + (score2 - score1) * Num 0.07)
   \<and> score2 - score1 = Num 0 - (score1 - score2)
   \<and> ((c = ISOCode team1 \<or> c = ISOCode team2) \<and> teamForm c = Some (Num f) \<and> f \<noteq> 0 \<longrightarrow>
        fold (\<lambda>s. updateTeamForm team1 team2 (Num s) (Num s)) ss teamForm c
          = Some (Num (f * 0.93 ^ length ss))
        \<and> f * 0.93 ^ length ss \<noteq> 0
        \<and> (\<lambda>n. f * 0.93 ^ n) \<longlonglongrightarrow> 0)"
  using updateTeamForm_first [of team1 team2 score1 score2 teamForm]
    updateTeamForm_second [of team1 team2 score1 score2 teamForm]
    jsnum_neg_diff [of score2 score1]
    updateTeamForm_draws_first [of team1 team2 teamForm f ss]
    updateTeamForm_draws_second [of team1 team2 teamForm f ss]
    decay_limit [of f]
  by auto

theorem updateTeamForm_smoothing_witness:
  "ISOCode teamA \<noteq> ISOCode teamB
   \<and> updateTeamForm teamA teamB (Num 80) (Num 70) (form_table sample_state) ''AAA''
       = Some (Num 2 * Num 0.93 + (Num 80 - Num 70) * Num 0.07)
   \<and> updateTeamForm teamA teamB (Num 80) (Num 70) (form_table sample_state) ''BBB''
       = Some (Num (- 1) * Num 0.93 + (Num 70 - Num 80) * Num 0.07)
   \<and> form_table sample_state ''AAA'' = Some (Num 2) \<and> (2::real) \<noteq> 0
   \<and> fold (\<lambda>s. updateTeamForm teamA teamB (Num s) (Num s)) [77, 81, 90] (form_table sample_state) ''AAA''
       = Some (Num (2 * 0.93 ^ 3))
   \<and> (2::real) * 0.93 ^ 3 \<noteq> 0"
  using updateTeamForm_smoothing [of teamA teamB "Num 80" "Num 70" "form_table sample_state"
      "''AAA''" 2 "[77, 81, 90]"]
  by (simp add: teamA_def teamB_def sample_state_def power3_eq_cube)

section \<open>Properties of the match simulation\<close>


lemma unroundedScores_NaN:
  "unroundedScores team1 team2 teamForm NaN r0 r1 r2 = (NaN, NaN)"
  by (simp add: unroundedScores_def Let_def)

lemma simulateMatch_scores:
  "getBaseScore exhibitions (ISOCode team1) (ISOCode team2) = Inr baseScore \<Longrightarrow>
   map_sum id fst (simulateMatch exhibitions (Some team1) (Some team2) st) =
     Inr (Math_round (fst (unroundedScores team1 team2 (form_table st) baseScore
                             (draws st 0) (draws st 1) (draws st 2))),
          Math_round (snd (unroundedScores team1 team2 (form_table st) baseScore
                             (draws st 0) (draws st 1) (draws st 2))))"
  by (auto simp: simulateMatch_def Math_random_def Let_def numeral_2_eq_2 split: prod.splits)

lemma simulateMatch_NaN:
  "getBaseScore exhibitions (ISOCode team1) (ISOCode team2) = Inr NaN \<Longrightarrow>
   map_sum id fst (simulateMatch exhibitions (Some team1) (Some team2) st) = Inr (NaN, NaN)"
  by (simp add: simulateMatch_scores unroundedScores_NaN)






section \<open>Properties of the input handling\<close>

lemma find_index_None: "find_index P xs = None \<longleftrightarrow> (\<forall>x \<in> set xs. \<not> P x)"
  by (induction xs) auto

lemma find_index_Some: "find_index P xs = Some i \<Longrightarrow> i < length xs \<and> P (xs ! i)"
  by (induction xs arbitrary: i) (auto split: if_splits)

lemma addForm_codes: "map ISOCode (addForm i d rs) = map ISOCode rs"
proof (cases "i < length rs")
  case True
  then show ?thesis by (simp add: addForm_def map_update list_update_same_conv)
next
  case False
  then show ?thesis by (simp add: addForm_def list_update_beyond)
qed

lemma codes_set: "map ISOCode rs' = map ISOCode rs \<Longrightarrow> ISOCode ` set rs' = ISOCode ` set rs"
  by (metis set_map)

lemma seedMatches_known:
  "\<forall>m \<in> set ms. Opponent m \<in> ISOCode ` set rs \<Longrightarrow>
   \<exists>rs'. seedMatches home rh ms rs = Inr rs' \<and> map ISOCode rs' = map ISOCode rs"
proof (induction ms arbitrary: rs)
  case Nil
  then show ?case by simp
next
  case (Cons m ms)
  then have "Opponent m \<in> ISOCode ` set rs" by simp
  then have "find_index (\<lambda>r. ISOCode r = Opponent m) rs \<noteq> None"
    by (auto simp: find_index_None)
  then obtain away where away: "find_index (\<lambda>r. ISOCode r = Opponent m) rs = Some away"
    by auto
  have *: "\<forall>m \<in> set ms. Opponent m \<in> ISOCode ` set (addForm k d rs)" for k d
    using Cons.prems codes_set [OF addForm_codes [of k d rs]] by simp
  show ?case
    using Cons.IH [OF *] away
    by (simp add: Let_def addForm_codes)
qed

lemma seedMatches_unknown:
  "\<exists>m \<in> set ms. Opponent m \<notin> ISOCode ` set rs \<Longrightarrow> seedMatches home rh ms rs = Inl TypeError"
proof (induction ms arbitrary: rs)
  case Nil
  then show ?case by simp
next
  case (Cons m ms)
  show ?case
  proof (cases "find_index (\<lambda>r. ISOCode r = Opponent m) rs")
    case None
    then show ?thesis by simp
  next
    case (Some away)
    then have "Opponent m \<in> ISOCode ` set rs"
      using find_index_Some [OF Some] by (metis (mono_tags, lifting) image_eqI nth_mem)
    with Cons.prems have rest: "\<exists>m \<in> set ms. Opponent m \<notin> ISOCode ` set rs" by auto
    have *: "\<exists>m \<in> set ms. Opponent m \<notin> ISOCode ` set (addForm k d rs)" for k d
      using rest codes_set [OF addForm_codes [of k d rs]] by simp
    show ?thesis
      using Cons.IH [OF *] Some by (simp add: Let_def)
  qed
qed

lemma seedTeams_known:
  "list_all (\<lambda>(code, matches). code \<in> ISOCode ` set rs
       \<and> list_all (\<lambda>match. Opponent match \<in> ISOCode ` set rs) matches) ex \<Longrightarrow>
   \<exists>rs'. seedTeams ex rs = Inr rs'"
proof (induction ex arbitrary: rs)
  case Nil
  then show ?case by simp
next
  case (Cons entry ex)
  obtain code matches where entry: "entry = (code, matches)" by (cases entry)
  from Cons.prems entry have code: "code \<in> ISOCode ` set rs"
    and ms: "\<forall>m \<in> set matches. Opponent m \<in> ISOCode ` set rs"
    by (auto simp: list_all_iff)
  from code have "find_index (\<lambda>r. ISOCode r = code) rs \<noteq> None"
    by (auto simp: find_index_None)
  then obtain home where home: "find_index (\<lambda>r. ISOCode r = code) rs = Some home" by auto
  from seedMatches_known [OF ms] obtain rs' where
    rs': "seedMatches home (FIBARanking (rs ! home)) matches rs = Inr rs'"
      "map ISOCode rs' = map ISOCode rs" by blast
  have "list_all (\<lambda>(code, matches). code \<in> ISOCode ` set rs'
       \<and> list_all (\<lambda>match. Opponent match \<in> ISOCode ` set rs') matches) ex"
    using Cons.prems codes_set [OF rs'(2)] by simp
  from Cons.IH [OF this] show ?case
    using entry home rs'(1) by simp
qed

lemma seedTeams_unknown:
  "\<not> list_all (\<lambda>(code, matches). code \<in> ISOCode ` set rs
       \<and> list_all (\<lambda>match. Opponent match \<in> ISOCode ` set rs) matches) ex \<Longrightarrow>
   seedTeams ex rs = Inl TypeError"
proof (induction ex arbitrary: rs)
  case Nil
  then show ?case by simp
next
  case (Cons entry ex)
  obtain code matches where entry: "entry = (code, matches)" by (cases entry)
  show ?case
  proof (cases "find_index (\<lambda>r. ISOCode r = code) rs")
    case None
    then show ?thesis using entry by simp
  next
    case (Some home)
    then have code: "code \<in> ISOCode ` set rs"
      using find_index_Some [OF Some] by (metis (mono_tags, lifting) image_eqI nth_mem)
    show ?thesis
    proof (cases "\<forall>m \<in> set matches. Opponent m \<in> ISOCode ` set rs")
      case False
      then have "seedMatches home (FIBARanking (rs ! home)) matches rs = Inl TypeError"
        by (intro seedMatches_unknown) simp
      then show ?thesis using entry Some by simp
    next
      case True
      from seedMatches_known [OF True] obtain rs' where
        rs': "seedMatches home (FIBARanking (rs ! home)) matches rs = Inr rs'"
          "map ISOCode rs' = map ISOCode rs" by blast
      have "\<not> list_all (\<lambda>(code, matches). code \<in> ISOCode ` set rs'
           \<and> list_all (\<lambda>match. Opponent match \<in> ISOCode ` set rs') matches) ex"
        using Cons.prems entry code True codes_set [OF rs'(2)] by (simp add: list_all_iff)
      from Cons.IH [OF this] show ?thesis
        using entry Some rs'(1) by simp
    qed
  qed
qed

lemma teamRankings_codes:
  "ISOCode ` set (concat (map (\<lambda>(group, groupTeams). map withForm groupTeams) groups))
   = group_codes groups"
  by (auto simp: group_codes_def withForm_def image_iff) (force simp: withForm_def)+

lemma getInitialForms_aborts_iff:
  "getInitialForms groups exhibitions = Inl TypeError \<longleftrightarrow> \<not> references_known groups exhibitions"
proof (cases "references_known groups exhibitions")
  case True
  then obtain rs' where
    "seedTeams exhibitions (concat (map (\<lambda>(group, groupTeams). map withForm groupTeams) groups)) = Inr rs'"
    using seedTeams_known [of "concat (map (\<lambda>(group, groupTeams). map withForm groupTeams) groups)" exhibitions]
    unfolding references_known_def teamRankings_codes by blast
  with True show ?thesis by (simp add: getInitialForms_def)
next
  case False
  then have
    "seedTeams exhibitions (concat (map (\<lambda>(group, groupTeams). map withForm groupTeams) groups)) = Inl TypeError"
    using seedTeams_unknown [of "concat (map (\<lambda>(group, groupTeams). map withForm groupTeams) groups)" exhibitions]
    unfolding references_known_def teamRankings_codes by blast
  with False show ?thesis by (simp add: getInitialForms_def)
qed

text \<open>
  C2, as the code has it. The code validates nothing; the only abort is JavaScript's own
  \<open>TypeError\<close>. \<open>getInitialForms\<close> aborts exactly when a key or an opponent of the
  exhibition data is the code of no team of the groups, and \<open>getBaseScore\<close> exactly when
  one of the two teams has no exhibition entry. A result string with a character that no
  numeric literal can hold (such as a colon) is not rejected: the base score of a team with
  such a match is \<open>NaN\<close>, and so are both scores of a match simulated with it. An empty
  exhibition history has the total 0 (no average is taken, so no \<open>NaN\<close> arises).
\<close>

theorem missing_reference_aborts_unparsed_score_propagates:
  "(getInitialForms groups exhibitions = Inl TypeError \<longleftrightarrow> \<not> references_known groups exhibitions)
   \<and> (getBaseScore exhibitions (ISOCode team1) (ISOCode team2) = Inl TypeError
        \<longleftrightarrow> map_of exhibitions (ISOCode team1) = None \<or> map_of exhibitions (ISOCode team2) = None)
   \<and> (map_of exhibitions (ISOCode team1) = Some matches1
        \<and> map_of exhibitions (ISOCode team2) = Some matches2
        \<and> list_ex unparsed (matches1 @ matches2)
      \<longrightarrow> getBaseScore exhibitions (ISOCode team1) (ISOCode team2) = Inr NaN
          \<and> map_sum id fst (simulateMatch exhibitions (Some team1) (Some team2) st) = Inr (NaN, NaN))
   \<and> getTotalPointsForTeam [] (Num 0) = Inr (Num 0)"
proof -
  have nan: "getBaseScore exhibitions (ISOCode team1) (ISOCode team2) = Inr NaN
      \<and> map_sum id fst (simulateMatch exhibitions (Some team1) (Some team2) st) = Inr (NaN, NaN)"
    if "map_of exhibitions (ISOCode team1) = Some matches1"
      "map_of exhibitions (ISOCode team2) = Some matches2"
      "list_ex unparsed (matches1 @ matches2)"
  proof -
    from that(3) have "\<exists>m \<in> set matches1 \<union> set matches2. unparsed m"
      by (auto simp: list_ex_iff)
    from getBaseScore_unparsed [OF that(1,2) this] simulateMatch_NaN show ?thesis
      by blast
  qed
  show ?thesis
    using getInitialForms_aborts_iff [of groups exhibitions]
      getBaseScore_aborts_iff [of exhibitions "ISOCode team1" "ISOCode team2"] nan
    by simp
qed

theorem missing_reference_aborts_unparsed_score_propagates_witness:
  "\<not> references_known sample_groups stranger_exhibitions
   \<and> getInitialForms sample_groups stranger_exhibitions = Inl TypeError
   \<and> map_of stranger_exhibitions (ISOCode teamB) = None
   \<and> getBaseScore stranger_exhibitions (ISOCode teamA) (ISOCode teamB) = Inl TypeError
   \<and> references_known sample_groups colon_exhibitions
   \<and> getInitialForms sample_groups colon_exhibitions \<noteq> Inl TypeError
   \<and> map_of colon_exhibitions (ISOCode teamA) = Some [\<lparr>Opponent = ''BBB'', Result = ''85:79''\<rparr>]
   \<and> map_of colon_exhibitions (ISOCode teamB) = Some [\<lparr>Opponent = ''AAA'', Result = ''80-75''\<rparr>]
   \<and> list_ex unparsed
       ([\<lparr>Opponent = ''BBB'', Result = ''85:79''\<rparr>] @ [\<lparr>Opponent = ''AAA'', Result = ''80-75''\<rparr>])
   \<and> getBaseScore colon_exhibitions (ISOCode teamA) (ISOCode teamB) = Inr NaN
   \<and> map_sum id fst (simulateMatch colon_exhibitions (Some teamA) (Some teamB) sample_state)
       = Inr (NaN, NaN)"
  using missing_reference_aborts_unparsed_score_propagates [where groups = sample_groups
      and exhibitions = stranger_exhibitions and ?team1.0 = teamA and ?team2.0 = teamB
      and ?matches1.0 = "[]" and ?matches2.0 = "[]" and st = sample_state]
    missing_reference_aborts_unparsed_score_propagates [where groups = sample_groups
      and exhibitions = colon_exhibitions and ?team1.0 = teamA and ?team2.0 = teamB
      and ?matches1.0 = "[\<lparr>Opponent = ''BBB'', Result = ''85:79''\<rparr>]"
      and ?matches2.0 = "[\<lparr>Opponent = ''AAA'', Result = ''80-75''\<rparr>]" and st = sample_state]
  by (simp add: references_known_def group_codes_def sample_groups_def stranger_exhibitions_def
      colon_exhibitions_def teamA_def teamB_def teamC_def teamD_def unparsed_def
      literal_char_def)

text \<open>
  The claim fails on exhibition data whose references are all known and in which one
  result is written \<open>85:79\<close>: nothing aborts; \<open>getInitialForms\<close> returns a table in
  which the form of \<open>AAA\<close> is \<open>NaN\<close>, the base score of \<open>AAA\<close> and \<open>BBB\<close> is
  \<open>NaN\<close>, and the match simulated between them has the scores \<open>NaN\<close> and \<open>NaN\<close>.
\<close>

theorem unparsed_score_counterexample:
  "references_known sample_groups colon_exhibitions
   \<and> \<not> wellformed_result ''85:79''
   \<and> getInitialForms sample_groups colon_exhibitions \<noteq> Inl TypeError
   \<and> (case getInitialForms sample_groups colon_exhibitions of
        Inl e \<Rightarrow> None | Inr teamForm \<Rightarrow> teamForm ''AAA'') = Some NaN
   \<and> getBaseScore colon_exhibitions ''AAA'' ''BBB'' = Inr NaN
   \<and> map_sum id fst (simulateMatch colon_exhibitions (Some teamA) (Some teamB) sample_state)
       = Inr (NaN, NaN)"
  by (simp add: references_known_def group_codes_def sample_groups_def colon_exhibitions_def
      teamA_def teamB_def teamC_def teamD_def parse_defs getInitialForms_def withForm_def
      addForm_def nth_opt_def expectedPointDiff_def Let_def getBaseScore_def simulateMatch_def
      Math_random_def unroundedScores_def sample_state_def)

section \<open>Properties of the standings\<close>

lemma numeric_Num: "numeric x \<longleftrightarrow> (\<exists>r. x = Num r)"
  by (cases x) (simp_all add: numeric_def)

lemma numeric_plus: "numeric x \<Longrightarrow> numeric y \<Longrightarrow> numeric (x + y)"
  by (auto simp: numeric_Num)

lemma compareStandings_positive:
  "numeric_columns a \<Longrightarrow> numeric_columns b \<Longrightarrow>
   js_gt (compareStandings a b) (Num 0) \<longleftrightarrow> \<not> ranked_before a b"
  by (auto simp: numeric_columns_def numeric_Num compareStandings_def ranked_before_def)

lemma ranked_before_total:
  "numeric_columns a \<Longrightarrow> numeric_columns b \<Longrightarrow> ranked_before a b \<or> ranked_before b a"
  by (auto simp: numeric_columns_def numeric_Num ranked_before_def)

lemma ranked_before_trans:
  "ranked_before a b \<Longrightarrow> ranked_before b c \<Longrightarrow> ranked_before a c"
  unfolding ranked_before_def
  by (cases "scored a - allowed a"; cases "scored b - allowed b"; cases "scored c - allowed c")
     auto

lemma set_insert_sorted: "set (insert_sorted cmp x ys) = insert x (set ys)"
  by (induction ys) auto

lemma mset_insert_sorted: "mset (insert_sorted cmp x ys) = add_mset x (mset ys)"
  by (induction ys) auto

lemma mset_array_sort: "mset (array_sort cmp xs) = mset xs"
  by (induction xs) (simp_all add: array_sort_def mset_insert_sorted)

lemma sorted_insert_sorted:
  "numeric_columns x \<Longrightarrow> \<forall>t \<in> set ys. numeric_columns t \<Longrightarrow> sorted_wrt ranked_before ys \<Longrightarrow>
   sorted_wrt ranked_before (insert_sorted compareStandings x ys)"
proof (induction ys)
  case Nil
  then show ?case by simp
next
  case (Cons y ys)
  show ?case
  proof (cases "js_gt (compareStandings x y) (Num 0)")
    case True
    with Cons.prems have "ranked_before y x"
      using compareStandings_positive [of x y] ranked_before_total [of x y] by auto
    with True Cons show ?thesis
      by (auto simp: set_insert_sorted)
  next
    case False
    with Cons.prems have xy: "ranked_before x y"
      using compareStandings_positive [of x y] by auto
    have "ranked_before x z" if "z \<in> set ys" for z
      using that xy Cons.prems(3) ranked_before_trans [of x y z] by auto
    with False xy Cons.prems show ?thesis by auto
  qed
qed

lemma sorted_array_sort:
  "\<forall>t \<in> set xs. numeric_columns t \<Longrightarrow> sorted_wrt ranked_before (array_sort compareStandings xs)"
proof (induction xs)
  case Nil
  then show ?case by (simp add: array_sort_def)
next
  case (Cons x xs)
  then have "sorted_wrt ranked_before (array_sort compareStandings xs)" by simp
  moreover have "\<forall>t \<in> set (array_sort compareStandings xs). numeric_columns t"
    using Cons.prems mset_array_sort [of compareStandings xs] by (metis list.set_intros(2) set_mset_mset)
  ultimately show ?case
    using Cons.prems sorted_insert_sorted [of x "array_sort compareStandings xs"]
    by (simp add: array_sort_def)
qed

lemma modify_all: "(\<And>t. P t \<Longrightarrow> P (f t)) \<Longrightarrow> list_all P xs \<Longrightarrow> list_all P (modify i f xs)"
  unfolding modify_def list_all_iff
  by (metis insertE nth_mem list_update_beyond linorder_not_less set_update_subset_insert subsetD)

lemma modify_map: "(\<And>t. g (f t) = g t) \<Longrightarrow> map g (modify i f xs) = map g xs"
  unfolding modify_def
  by (metis list_update_beyond list_update_id map_update linorder_not_less nth_map)

lemma length_modify [simp]: "length (modify i f xs) = length xs"
  by (simp add: modify_def)


lemma processTeamOneWin_all:
  "(\<And>t p. P t \<Longrightarrow> P (t\<lparr>points := p\<rparr>)) \<Longrightarrow> (\<And>t p. P t \<Longrightarrow> P (t\<lparr>wins := p\<rparr>)) \<Longrightarrow>
   (\<And>t p. P t \<Longrightarrow> P (t\<lparr>losses := p\<rparr>)) \<Longrightarrow>
   list_all P teams \<Longrightarrow> list_all P (processTeamOneWin i j teams)"
  by (simp add: processTeamOneWin_def Let_def modify_all)

lemma processTeamTwoWin_all:
  "(\<And>t p. P t \<Longrightarrow> P (t\<lparr>points := p\<rparr>)) \<Longrightarrow> (\<And>t p. P t \<Longrightarrow> P (t\<lparr>wins := p\<rparr>)) \<Longrightarrow>
   (\<And>t p. P t \<Longrightarrow> P (t\<lparr>losses := p\<rparr>)) \<Longrightarrow>
   list_all P teams \<Longrightarrow> list_all P (processTeamTwoWin i j teams)"
  by (simp add: processTeamTwoWin_def Let_def modify_all)

lemma processMatch_numeric:
  assumes "numeric (r_score1 match)" "numeric (r_score2 match)"
    and "list_all numeric_columns teams" and "processMatch match teams = Inr teams'"
  shows "list_all numeric_columns teams'"
proof -
  have add: "numeric_columns (t\<lparr>scored := scored t + x\<rparr>)" "numeric_columns (t\<lparr>allowed := allowed t + x\<rparr>)"
    if "numeric_columns t" "numeric x" for t :: standing and x
    using that by (simp_all add: numeric_columns_def numeric_plus)
  have one: "numeric (Num 1)" by (simp add: numeric_def)
  have keep: "numeric_columns (t\<lparr>points := p\<rparr>)" "numeric_columns (t\<lparr>wins := p\<rparr>)"
    "numeric_columns (t\<lparr>losses := p\<rparr>)" if "numeric_columns t" for t :: standing and p
    using that by (simp_all add: numeric_columns_def)
  from assms(4) obtain i j where
    "find_index (\<lambda>t. Team t = r_team1 match) teams = Some i"
    "find_index (\<lambda>t. Team t = r_team2 match) teams = Some j"
    by (auto simp: processMatch_def split: option.splits)
  with assms show ?thesis
    by (auto simp: processMatch_def Let_def
        intro!: processTeamOneWin_all processTeamTwoWin_all modify_all add one keep)
qed

lemma processMatch_names:
  assumes "processMatch match teams = Inr teams'"
  shows "map Team teams' = map Team teams"
proof -
  from assms obtain i j where
    "find_index (\<lambda>t. Team t = r_team1 match) teams = Some i"
    "find_index (\<lambda>t. Team t = r_team2 match) teams = Some j"
    by (auto simp: processMatch_def split: option.splits)
  with assms show ?thesis
    by (auto simp: processMatch_def Let_def processTeamOneWin_def processTeamTwoWin_def modify_map)
qed

lemma find_index_member:
  "x \<in> f ` set xs \<Longrightarrow> \<exists>i. find_index (\<lambda>t. f t = x) xs = Some i"
  by (induction xs) auto

lemma processMatch_returns:
  "r_team1 match \<in> Team ` set teams \<Longrightarrow> r_team2 match \<in> Team ` set teams \<Longrightarrow>
   \<exists>teams'. processMatch match teams = Inr teams'"
  using find_index_member [of "r_team1 match" Team teams]
    find_index_member [of "r_team2 match" Team teams]
  by (auto simp: processMatch_def Let_def)

lemma processMatches_returns:
  "list_all (\<lambda>m. r_team1 m \<in> Team ` set teams \<and> r_team2 m \<in> Team ` set teams) results \<Longrightarrow>
   list_all (\<lambda>m. numeric (r_score1 m) \<and> numeric (r_score2 m)) results \<Longrightarrow>
   list_all numeric_columns teams \<Longrightarrow>
   \<exists>teams'. processMatches results teams = Inr teams' \<and> list_all numeric_columns teams'
      \<and> map Team teams' = map Team teams"
proof (induction results arbitrary: teams)
  case Nil
  then show ?case by simp
next
  case (Cons m results)
  then obtain teams1 where 1: "processMatch m teams = Inr teams1"
    using processMatch_returns [of m teams] by auto
  have names: "map Team teams1 = map Team teams" by (rule processMatch_names [OF 1])
  then have set: "Team ` set teams1 = Team ` set teams" by (metis set_map)
  have num: "list_all numeric_columns teams1"
    using processMatch_numeric [OF _ _ Cons.prems(3) 1] Cons.prems(2) by simp
  from Cons.IH [of teams1] Cons.prems(1,2) set num names 1 show ?case by simp
qed

lemma modify_nth_same: "i < length xs \<Longrightarrow> modify i f xs ! i = f (xs ! i)"
  by (simp add: modify_def)

lemma modify_nth_other: "i \<noteq> j \<Longrightarrow> modify i f xs ! j = xs ! j"
  by (simp add: modify_def)

lemma modify_modify: "modify i f (modify i g xs) = modify i (\<lambda>t. f (g t)) xs"
  by (cases "i < length xs") (simp_all add: modify_def list_update_beyond)

lemma modify_swap: "i \<noteq> j \<Longrightarrow> modify j f (modify i g xs) = modify i g (modify j f xs)"
  by (simp add: modify_def list_update_swap)

lemma modify_pair:
  "i \<noteq> j \<Longrightarrow> modify i f (modify j g xs) = xs[i := f (xs ! i), j := g (xs ! j)]"
  by (simp add: modify_def list_update_swap)

lemma processMatch_step:
  assumes "find_index (\<lambda>t. Team t = r_team1 match) teams = Some i"
    and "find_index (\<lambda>t. Team t = r_team2 match) teams = Some j"
    and "i \<noteq> j"
  shows "processMatch match teams =
    Inr (teams
      [i := (teams ! i)
         \<lparr>points := points (teams ! i) + (if js_gt (r_score1 match) (r_score2 match) then 2 else 0),
          scored :=
            (if js_eq (scored (teams ! i) + r_score1 match) (scored (teams ! j) + r_score2 match)
                \<and> FIBARanking (teams ! i) < FIBARanking (teams ! j)
             then scored (teams ! i) + r_score1 match + Num 1
             else scored (teams ! i) + r_score1 match),
          allowed := allowed (teams ! i) + r_score2 match,
          wins := wins (teams ! i) + (if js_gt (r_score1 match) (r_score2 match) then 1 else 0),
          losses := losses (teams ! i) + (if js_gt (r_score1 match) (r_score2 match) then 0 else 1)\<rparr>,
       j := (teams ! j)
         \<lparr>points := points (teams ! j) + (if js_gt (r_score1 match) (r_score2 match) then 0 else 2),
          scored :=
            (if js_eq (scored (teams ! i) + r_score1 match) (scored (teams ! j) + r_score2 match)
                \<and> \<not> FIBARanking (teams ! i) < FIBARanking (teams ! j)
             then scored (teams ! j) + r_score2 match + Num 1
             else scored (teams ! j) + r_score2 match),
          allowed := allowed (teams ! j) + r_score1 match,
          wins := wins (teams ! j) + (if js_gt (r_score1 match) (r_score2 match) then 0 else 1),
          losses := losses (teams ! j) + (if js_gt (r_score1 match) (r_score2 match) then 1 else 0)\<rparr>])"
proof -
  have i: "i < length teams" and j: "j < length teams"
    using find_index_Some [OF assms(1)] find_index_Some [OF assms(2)] by simp_all
  note ji = assms(3) [symmetric]
  let ?acc = "modify j (\<lambda>t. t\<lparr>allowed := allowed t + r_score1 match\<rparr>)
     (modify j (\<lambda>t. t\<lparr>scored := scored t + r_score2 match\<rparr>)
       (modify i (\<lambda>t. t\<lparr>allowed := allowed t + r_score2 match\<rparr>)
         (modify i (\<lambda>t. t\<lparr>scored := scored t + r_score1 match\<rparr>) teams)))"
  have acc: "?acc = modify i (\<lambda>t. t\<lparr>scored := scored t + r_score1 match, allowed := allowed t + r_score2 match\<rparr>)
      (modify j (\<lambda>t. t\<lparr>scored := scored t + r_score2 match, allowed := allowed t + r_score1 match\<rparr>) teams)"
    by (simp add: modify_modify modify_swap [OF assms(3)])
  have acc_i: "scored (?acc ! i) = scored (teams ! i) + r_score1 match"
    "FIBARanking (?acc ! i) = FIBARanking (teams ! i)"
    by (simp_all add: acc modify_nth_same modify_nth_other i j ji)
  have acc_j: "scored (?acc ! j) = scored (teams ! j) + r_score2 match"
    "FIBARanking (?acc ! j) = FIBARanking (teams ! j)"
    by (simp_all add: modify_nth_same modify_nth_other i j assms(3))
  have fin: "modify i f (modify j g teams) = teams[i := f (teams ! i), j := g (teams ! j)]" for f g
    by (rule modify_pair [OF assms(3)])
  show ?thesis
    unfolding processMatch_def assms(1,2) Let_def option.case prod.case acc_i acc_j
    unfolding acc processTeamOneWin_def processTeamTwoWin_def Let_def
    apply (simp add: modify_modify modify_swap [OF assms(3)])
    apply (simp add: fin)
    apply (intro conjI impI arg_cong2 [where f = "\<lambda>a b. teams[i := a, j := b]"] standing.equality; simp)
    done
qed


lemma rankGroup_sorted:
  assumes "list_all (\<lambda>m. r_team1 m \<in> Team ` set groupTeams \<and> r_team2 m \<in> Team ` set groupTeams) groupResults"
    and "list_all (\<lambda>m. numeric (r_score1 m) \<and> numeric (r_score2 m)) groupResults"
  shows "\<exists>teams'. processMatches groupResults (map initStanding groupTeams) = Inr teams'
           \<and> rankGroup groupTeams groupResults = Inr (array_sort compareStandings teams')
           \<and> mset (array_sort compareStandings teams') = mset teams'
           \<and> sorted_wrt ranked_before (array_sort compareStandings teams')"
proof -
  have names: "Team ` set (map initStanding groupTeams) = Team ` set groupTeams"
    by (force simp: initStanding_def image_iff)
  have init: "list_all numeric_columns (map initStanding groupTeams)"
    by (simp add: list_all_iff initStanding_def numeric_columns_def numeric_def)
  from processMatches_returns [of "map initStanding groupTeams" groupResults] assms init
  obtain teams' where t: "processMatches groupResults (map initStanding groupTeams) = Inr teams'"
    "list_all numeric_columns teams'"
    unfolding names by auto
  from t(2) have "sorted_wrt ranked_before (array_sort compareStandings teams')"
    by (intro sorted_array_sort) (simp add: list_all_iff)
  with t(1) show ?thesis
    by (simp add: rankGroup_def mset_array_sort)
qed

lemma rankTeams_groups:
  "rankTeams groups results = Inr rankings \<Longrightarrow>
   list_all2 (\<lambda>(groupName, groupTeams) (rankedName, ranked). rankedName = groupName
       \<and> (\<exists>groupResults. map_of results groupName = Some groupResults
            \<and> rankGroup groupTeams groupResults = Inr ranked)) groups rankings"
proof (induction groups arbitrary: rankings)
  case Nil
  then show ?case by simp
next
  case (Cons entry groups)
  obtain groupName groupTeams where entry: "entry = (groupName, groupTeams)" by (cases entry)
  from Cons.prems entry show ?case
    by (auto split: option.splits sum.splits intro: Cons.IH)
qed

text \<open>
  C4. One match of the result sequence, for the two different elements \<open>i\<close> and
  \<open>j\<close> of \<open>teams\<close> that its names find: the scores are added to both sides' scored
  and allowed; if the two cumulative scored totals are then equal, the team with the lower
  ranking number (the second team when the rankings are equal) gets 1 more scored, and
  nothing else; and the first team gets 2 points and a win and the second a loss when
  \<open>score1 > score2\<close>, the second team the points and the win and the first the loss
  otherwise. For a group whose results name teams of the group and carry numeric scores,
  the matches are processed in order and the final standings are those records sorted:
  more points first, then the greater difference of scored and allowed. \<open>rankTeams\<close>
  does this for every group.
\<close>

theorem rankTeams_standings:
  "(find_index (\<lambda>t. Team t = r_team1 match) teams = Some i
      \<and> find_index (\<lambda>t. Team t = r_team2 match) teams = Some j \<and> i \<noteq> j \<longrightarrow>
    processMatch match teams =
      Inr (teams
        [i := (teams ! i)
           \<lparr>points := points (teams ! i) + (if js_gt (r_score1 match) (r_score2 match) then 2 else 0),
            scored :=
              (if js_eq (scored (teams ! i) + r_score1 match) (scored (teams ! j) + r_score2 match)
                  \<and> FIBARanking (teams ! i) < FIBARanking (teams ! j)
               then scored (teams ! i) + r_score1 match + Num 1
               else scored (teams ! i) + r_score1 match),
            allowed := allowed (teams ! i) + r_score2 match,
            wins := wins (teams ! i) + (if js_gt (r_score1 match) (r_score2 match) then 1 else 0),
            losses := losses (teams ! i) + (if js_gt (r_score1 match) (r_score2 match) then 0 else 1)\<rparr>,
         j := (teams ! j)
           \<lparr>points := points (teams ! j) + (if js_gt (r_score1 match) (r_score2 match) then 0 else 2),
            scored :=
              (if js_eq (scored (teams ! i) + r_score1 match) (scored (teams ! j) + r_score2 match)
                  \<and> \<not> FIBARanking (teams ! i) < FIBARanking (teams ! j)
               then scored (teams ! j) + r_score2 match + Num 1
               else scored (teams ! j) + r_score2 match),
            allowed := allowed (teams ! j) + r_score1 match,
            wins := wins (teams ! j) + (if js_gt (r_score1 match) (r_score2 match) then 0 else 1),
            losses := losses (teams ! j) + (if js_gt (r_score1 match) (r_score2 match) then 1 else 0)\<rparr>]))
   \<and> (list_all (\<lambda>m. r_team1 m \<in> Team ` set groupTeams \<and> r_team2 m \<in> Team ` set groupTeams) groupResults
        \<and> list_all (\<lambda>m. numeric (r_score1 m) \<and> numeric (r_score2 m)) groupResults \<longrightarrow>
      (\<exists>teams'. processMatches groupResults (map initStanding groupTeams) = Inr teams'
         \<and> rankGroup groupTeams groupResults = Inr (array_sort compareStandings teams')
         \<and> mset (array_sort compareStandings teams') = mset teams'
         \<and> sorted_wrt ranked_before (array_sort compareStandings teams')))
   \<and> (rankTeams groups results = Inr rankings \<longrightarrow>
        list_all2 (\<lambda>(groupName, groupTeams) (rankedName, ranked). rankedName = groupName
          \<and> (\<exists>groupResults. map_of results groupName = Some groupResults
               \<and> rankGroup groupTeams groupResults = Inr ranked)) groups rankings)"
  using processMatch_step [of match teams i j] rankGroup_sorted [of groupTeams groupResults]
    rankTeams_groups [of groups results rankings]
  by blast

lemmas standing_defs = sample_teams_def initStanding_def teamA_def teamB_def teamC_def teamD_def
  standing_of_def processMatch_def Let_def modify_def processTeamOneWin_def processTeamTwoWin_def

theorem rankTeams_standings_witness:
  "find_index (\<lambda>t. Team t = r_team1 drawn_match) (map initStanding sample_teams) = Some 0
   \<and> find_index (\<lambda>t. Team t = r_team2 drawn_match) (map initStanding sample_teams) = Some 1
   \<and> (0::nat) \<noteq> 1
   \<and> processMatch drawn_match (map initStanding sample_teams)
       = Inr [standing_of teamA 0 81 80 0 1, standing_of teamB 2 80 80 1 0,
              standing_of teamC 0 0 0 0 0, standing_of teamD 0 0 0 0 0]
   \<and> list_all (\<lambda>m. r_team1 m \<in> Team ` set sample_teams \<and> r_team2 m \<in> Team ` set sample_teams)
        sample_results
   \<and> list_all (\<lambda>m. numeric (r_score1 m) \<and> numeric (r_score2 m)) sample_results
   \<and> rankGroup sample_teams sample_results
       = Inr [standing_of teamB 6 255 221 3 0, standing_of teamD 4 261 228 2 1,
              standing_of teamA 2 235 243 1 2, standing_of teamC 0 217 276 0 3]
   \<and> sorted_wrt ranked_before
        [standing_of teamB 6 255 221 3 0, standing_of teamD 4 261 228 2 1,
         standing_of teamA 2 235 243 1 2, standing_of teamC 0 217 276 0 3]
   \<and> rankTeams sample_groups [(''A'', sample_results)]
       = Inr [(''A'', [standing_of teamB 6 255 221 3 0, standing_of teamD 4 261 228 2 1,
                       standing_of teamA 2 235 243 1 2, standing_of teamC 0 217 276 0 3])]"
proof -
  have ranked: "rankGroup sample_teams sample_results
       = Inr [standing_of teamB 6 255 221 3 0, standing_of teamD 4 261 228 2 1,
              standing_of teamA 2 235 243 1 2, standing_of teamC 0 217 276 0 3]"
    by (simp add: rankGroup_def sample_results_def standing_defs array_sort_def compareStandings_def)
  have all: "rankTeams sample_groups [(''A'', sample_results)]
       = Inr [(''A'', [standing_of teamB 6 255 221 3 0, standing_of teamD 4 261 228 2 1,
                       standing_of teamA 2 235 243 1 2, standing_of teamC 0 217 276 0 3])]"
    using ranked by (simp add: sample_groups_def sample_teams_def)
  have names: "list_all (\<lambda>m. r_team1 m \<in> Team ` set sample_teams \<and> r_team2 m \<in> Team ` set sample_teams)
        sample_results"
    and scores: "list_all (\<lambda>m. numeric (r_score1 m) \<and> numeric (r_score2 m)) sample_results"
    by (simp_all add: sample_results_def sample_teams_def teamA_def teamB_def teamC_def teamD_def
        numeric_def)
  have found: "find_index (\<lambda>t. Team t = r_team1 drawn_match) (map initStanding sample_teams) = Some 0"
    "find_index (\<lambda>t. Team t = r_team2 drawn_match) (map initStanding sample_teams) = Some 1"
    by (simp_all add: drawn_match_def sample_teams_def initStanding_def teamA_def teamB_def
        teamC_def teamD_def)
  note inst = rankTeams_standings [of drawn_match "map initStanding sample_teams" 0 1
      sample_teams sample_results sample_groups "[(''A'', sample_results)]"
      "[(''A'', [standing_of teamB 6 255 221 3 0, standing_of teamD 4 261 228 2 1,
                 standing_of teamA 2 235 243 1 2, standing_of teamC 0 217 276 0 3])]"]
  from inst [THEN conjunct1] found
  have "processMatch drawn_match (map initStanding sample_teams)
      = Inr ((map initStanding sample_teams)
          [0 := (map initStanding sample_teams ! 0)
             \<lparr>points := points (map initStanding sample_teams ! 0)
                 + (if js_gt (r_score1 drawn_match) (r_score2 drawn_match) then 2 else 0),
              scored :=
                (if js_eq (scored (map initStanding sample_teams ! 0) + r_score1 drawn_match)
                      (scored (map initStanding sample_teams ! 1) + r_score2 drawn_match)
                    \<and> FIBARanking (map initStanding sample_teams ! 0)
                        < FIBARanking (map initStanding sample_teams ! 1)
                 then scored (map initStanding sample_teams ! 0) + r_score1 drawn_match + Num 1
                 else scored (map initStanding sample_teams ! 0) + r_score1 drawn_match),
              allowed := allowed (map initStanding sample_teams ! 0) + r_score2 drawn_match,
              wins := wins (map initStanding sample_teams ! 0)
                 + (if js_gt (r_score1 drawn_match) (r_score2 drawn_match) then 1 else 0),
              losses := losses (map initStanding sample_teams ! 0)
                 + (if js_gt (r_score1 drawn_match) (r_score2 drawn_match) then 0 else 1)\<rparr>,
           1 := (map initStanding sample_teams ! 1)
             \<lparr>points := points (map initStanding sample_teams ! 1)
                 + (if js_gt (r_score1 drawn_match) (r_score2 drawn_match) then 0 else 2),
              scored :=
                (if js_eq (scored (map initStanding sample_teams ! 0) + r_score1 drawn_match)
                      (scored (map initStanding sample_teams ! 1) + r_score2 drawn_match)
                    \<and> \<not> FIBARanking (map initStanding sample_teams ! 0)
                        < FIBARanking (map initStanding sample_teams ! 1)
                 then scored (map initStanding sample_teams ! 1) + r_score2 drawn_match + Num 1
                 else scored (map initStanding sample_teams ! 1) + r_score2 drawn_match),
              allowed := allowed (map initStanding sample_teams ! 1) + r_score1 drawn_match,
              wins := wins (map initStanding sample_teams ! 1)
                 + (if js_gt (r_score1 drawn_match) (r_score2 drawn_match) then 0 else 1),
              losses := losses (map initStanding sample_teams ! 1)
                 + (if js_gt (r_score1 drawn_match) (r_score2 drawn_match) then 1 else 0)\<rparr>])"
    by simp
  then have step: "processMatch drawn_match (map initStanding sample_teams)
       = Inr [standing_of teamA 0 81 80 0 1, standing_of teamB 2 80 80 1 0,
              standing_of teamC 0 0 0 0 0, standing_of teamD 0 0 0 0 0]"
    by (simp add: drawn_match_def sample_teams_def initStanding_def teamA_def teamB_def teamC_def
        teamD_def standing_of_def)
  from inst [THEN conjunct2, THEN conjunct1] names scores
  obtain teams' where "rankGroup sample_teams sample_results = Inr (array_sort compareStandings teams')"
    "sorted_wrt ranked_before (array_sort compareStandings teams')"
    by blast
  with ranked have sorted: "sorted_wrt ranked_before
        [standing_of teamB 6 255 221 3 0, standing_of teamD 4 261 228 2 1,
         standing_of teamA 2 235 243 1 2, standing_of teamC 0 217 276 0 3]"
    by simp
  from found names scores ranked all step sorted show ?thesis by simp
qed

section \<open>Properties of the round robin\<close>

lemma simulateMatch_returns:
  assumes "map_of exhibitions (ISOCode team1) \<noteq> None" "map_of exhibitions (ISOCode team2) \<noteq> None"
  shows "\<exists>result st'. simulateMatch exhibitions (Some team1) (Some team2) st = Inr (result, st')"
proof -
  have "getBaseScore exhibitions (ISOCode team1) (ISOCode team2) \<noteq> Inl TypeError"
    using assms by (simp add: getBaseScore_aborts_iff)
  then obtain baseScore where "getBaseScore exhibitions (ISOCode team1) (ISOCode team2) = Inr baseScore"
    by (cases "getBaseScore exhibitions (ISOCode team1) (ISOCode team2)") (auto intro: error.exhaust)
  then show ?thesis
    by (simp add: simulateMatch_def Let_def split: prod.splits)
qed









section \<open>Properties of the seeding\<close>

lemma length_array_sort: "length (array_sort cmp xs) = length xs"
  by (metis mset_array_sort size_mset)

lemma array_sort_undefined_Some:
  "array_sort_undefined cmp (map Some xs) = map Some (array_sort cmp xs)"
  by (simp add: array_sort_undefined_def map_filter_map_filter map_filter_def comp_def)

lemma halves:
  "Suc 0 div 2 = 0" "Suc (Suc 0) div 2 = Suc 0" "Suc (Suc (Suc 0)) div 2 = Suc 0"
  "Suc (Suc (Suc (Suc 0))) div 2 = Suc (Suc 0)" "Suc (Suc (Suc (Suc (Suc 0)))) div 2 = Suc (Suc 0)"
  "Suc (Suc (Suc (Suc (Suc (Suc 0))))) div 2 = Suc (Suc (Suc 0))"
  "Suc (Suc (Suc (Suc (Suc (Suc (Suc 0)))))) div 2 = Suc (Suc (Suc 0))"
  by simp_all

lemma fillPots_eight:
  "fillPots 0 [e0, e1, e2, e3, e4, e5, e6, e7] [[], [], [], []]
   = Inr [[e0, e1], [e2, e3], [e4, e5], [e6, e7]]"
  by (simp add: halves)

lemma getEliminationMatches_eight:
  "getEliminationMatches [e0, e1, e2, e3, e4, e5, e6, e7]
   = Inr [(e0, e7), (e2, e5), (e4, e3), (e6, e1)]"
  by (simp add: getEliminationMatches_def fillPots_eight element_def)

lemma take_eight:
  "length F = 3 \<Longrightarrow> length S = 3 \<Longrightarrow> take 8 (F @ S @ T) = F @ S @ take 2 T"
  by simp

lemma getTopEightTeams_pools:
  assumes "map_of rankings ''A'' = Some A" "map_of rankings ''B'' = Some B"
    "map_of rankings ''C'' = Some C"
    and "3 \<le> length A" "3 \<le> length B" "3 \<le> length C"
  shows "getTopEightTeams rankings =
     Inr (map Some (array_sort compareStandings [A ! 0, B ! 0, C ! 0]
                    @ array_sort compareStandings [A ! 1, B ! 1, C ! 1]
                    @ take 2 (array_sort compareStandings [A ! 2, B ! 2, C ! 2])))"
proof -
  have pool: "array_sort_undefined compareStandings [nth_opt A k, nth_opt B k, nth_opt C k]
      = map Some (array_sort compareStandings [A ! k, B ! k, C ! k])" if "k < 3" for k
    using that assms(4-6) array_sort_undefined_Some [of compareStandings "[A ! k, B ! k, C ! k]"]
    by (simp add: nth_opt_def)
  show ?thesis
    using assms(1-3) pool [of 0] pool [of 1] pool [of 2]
    by (simp add: getTopEightTeams_def Let_def length_array_sort take_map)
qed

lemma pool_sorted:
  assumes "numeric_columns x" "numeric_columns y" "numeric_columns z"
  shows "mset (array_sort compareStandings [x, y, z]) = {#x, y, z#}"
    and "sorted_wrt ranked_before (array_sort compareStandings [x, y, z])"
    and "length (array_sort compareStandings [x, y, z]) = 3"
  using assms mset_array_sort [of compareStandings "[x, y, z]"]
    sorted_array_sort [of "[x, y, z]"] length_array_sort [of compareStandings "[x, y, z]"]
  by simp_all

text \<open>
  C6. For rankings that hold the standings of the groups \<open>A\<close>, \<open>B\<close> and \<open>C\<close>, four
  teams each, with numeric columns: the first places, the second places and the third
  places of the three groups are each sorted (more points first, then the greater
  difference), and the result is the three first places, the three second places and the
  best two of the three third places, eight teams in this order. The eight teams are put
  into the pots \<open>[e0, e1]\<close>, \<open>[e2, e3]\<close>, \<open>[e4, e5]\<close>, \<open>[e6, e7]\<close>, and the
  quarterfinals are \<open>e0 - e7\<close>, \<open>e2 - e5\<close>, \<open>e4 - e3\<close>, \<open>e6 - e1\<close>: the first of
  pot \<open>i\<close> against the second of pot \<open>3 - i\<close>.
\<close>

theorem getTopEightTeams_seeding:
  "(map_of rankings ''A'' = Some A \<and> map_of rankings ''B'' = Some B
      \<and> map_of rankings ''C'' = Some C
      \<and> length A = 4 \<and> length B = 4 \<and> length C = 4
      \<and> list_all numeric_columns (A @ B @ C) \<longrightarrow>
    getTopEightTeams rankings =
      Inr (map Some (array_sort compareStandings [A ! 0, B ! 0, C ! 0]
                     @ array_sort compareStandings [A ! 1, B ! 1, C ! 1]
                     @ take 2 (array_sort compareStandings [A ! 2, B ! 2, C ! 2])))
    \<and> length (array_sort compareStandings [A ! 0, B ! 0, C ! 0]
               @ array_sort compareStandings [A ! 1, B ! 1, C ! 1]
               @ take 2 (array_sort compareStandings [A ! 2, B ! 2, C ! 2])) = 8
    \<and> mset (array_sort compareStandings [A ! 0, B ! 0, C ! 0]) = {#A ! 0, B ! 0, C ! 0#}
    \<and> mset (array_sort compareStandings [A ! 1, B ! 1, C ! 1]) = {#A ! 1, B ! 1, C ! 1#}
    \<and> mset (array_sort compareStandings [A ! 2, B ! 2, C ! 2]) = {#A ! 2, B ! 2, C ! 2#}
    \<and> sorted_wrt ranked_before (array_sort compareStandings [A ! 0, B ! 0, C ! 0])
    \<and> sorted_wrt ranked_before (array_sort compareStandings [A ! 1, B ! 1, C ! 1])
    \<and> sorted_wrt ranked_before (array_sort compareStandings [A ! 2, B ! 2, C ! 2]))
   \<and> fillPots 0 [e0, e1, e2, e3, e4, e5, e6, e7] [[], [], [], []]
       = Inr [[e0, e1], [e2, e3], [e4, e5], [e6, e7]]
   \<and> getEliminationMatches [e0, e1, e2, e3, e4, e5, e6, e7]
       = Inr [(e0, e7), (e2, e5), (e4, e3), (e6, e1)]"
proof (intro conjI impI)
  assume h: "map_of rankings ''A'' = Some A \<and> map_of rankings ''B'' = Some B
      \<and> map_of rankings ''C'' = Some C
      \<and> length A = 4 \<and> length B = 4 \<and> length C = 4
      \<and> list_all numeric_columns (A @ B @ C)"
  then have mem: "\<And>t. t \<in> set A \<union> set B \<union> set C \<Longrightarrow> numeric_columns t"
    by (auto simp: list_all_iff)
  have num: "numeric_columns (A ! k)" "numeric_columns (B ! k)" "numeric_columns (C ! k)"
    if "k < 4" for k
    using that h by (auto intro!: mem)
  from h show "getTopEightTeams rankings =
      Inr (map Some (array_sort compareStandings [A ! 0, B ! 0, C ! 0]
                     @ array_sort compareStandings [A ! 1, B ! 1, C ! 1]
                     @ take 2 (array_sort compareStandings [A ! 2, B ! 2, C ! 2])))"
    by (intro getTopEightTeams_pools) simp_all
  show "length (array_sort compareStandings [A ! 0, B ! 0, C ! 0]
               @ array_sort compareStandings [A ! 1, B ! 1, C ! 1]
               @ take 2 (array_sort compareStandings [A ! 2, B ! 2, C ! 2])) = 8"
    by (simp add: length_array_sort)
  show "mset (array_sort compareStandings [A ! 0, B ! 0, C ! 0]) = {#A ! 0, B ! 0, C ! 0#}"
    "mset (array_sort compareStandings [A ! 1, B ! 1, C ! 1]) = {#A ! 1, B ! 1, C ! 1#}"
    "mset (array_sort compareStandings [A ! 2, B ! 2, C ! 2]) = {#A ! 2, B ! 2, C ! 2#}"
    by (simp_all add: mset_array_sort)
  show "sorted_wrt ranked_before (array_sort compareStandings [A ! 0, B ! 0, C ! 0])"
    by (rule pool_sorted(2)) (simp_all add: num)
  show "sorted_wrt ranked_before (array_sort compareStandings [A ! 1, B ! 1, C ! 1])"
    by (rule pool_sorted(2)) (simp_all add: num)
  show "sorted_wrt ranked_before (array_sort compareStandings [A ! 2, B ! 2, C ! 2])"
    by (rule pool_sorted(2)) (simp_all add: num)
qed (rule fillPots_eight getEliminationMatches_eight)+

theorem getTopEightTeams_seeding_witness:
  "map_of sample_rankings ''A'' = Some groupA_standings
   \<and> map_of sample_rankings ''B'' = Some groupB_standings
   \<and> map_of sample_rankings ''C'' = Some groupC_standings
   \<and> length groupA_standings = 4 \<and> length groupB_standings = 4 \<and> length groupC_standings = 4
   \<and> list_all numeric_columns (groupA_standings @ groupB_standings @ groupC_standings)
   \<and> getTopEightTeams sample_rankings =
       Inr (map Some
         [groupB_standings ! 0, groupA_standings ! 0, groupC_standings ! 0,
          groupB_standings ! 1, groupA_standings ! 1, groupC_standings ! 1,
          groupB_standings ! 2, groupA_standings ! 2])
   \<and> getEliminationMatches (map Some
         [groupB_standings ! 0, groupA_standings ! 0, groupC_standings ! 0,
          groupB_standings ! 1, groupA_standings ! 1, groupC_standings ! 1,
          groupB_standings ! 2, groupA_standings ! 2])
       = Inr [(Some (groupB_standings ! 0), Some (groupA_standings ! 2)),
              (Some (groupC_standings ! 0), Some (groupC_standings ! 1)),
              (Some (groupA_standings ! 1), Some (groupB_standings ! 1)),
              (Some (groupB_standings ! 2), Some (groupA_standings ! 0))]"
proof -
  note defs = groupA_standings_def groupB_standings_def groupC_standings_def sample_standing_def
  have maps: "map_of sample_rankings ''A'' = Some groupA_standings"
    "map_of sample_rankings ''B'' = Some groupB_standings"
    "map_of sample_rankings ''C'' = Some groupC_standings"
    by (simp_all add: sample_rankings_def)
  have lens: "length groupA_standings = 4" "length groupB_standings = 4"
    "length groupC_standings = 4"
    by (simp_all add: defs)
  have nums: "list_all numeric_columns (groupA_standings @ groupB_standings @ groupC_standings)"
    by (simp add: defs numeric_columns_def numeric_def)
  have sorts:
    "array_sort compareStandings [groupA_standings ! 0, groupB_standings ! 0, groupC_standings ! 0]
      = [groupB_standings ! 0, groupA_standings ! 0, groupC_standings ! 0]"
    "array_sort compareStandings [groupA_standings ! 1, groupB_standings ! 1, groupC_standings ! 1]
      = [groupB_standings ! 1, groupA_standings ! 1, groupC_standings ! 1]"
    "array_sort compareStandings [groupA_standings ! 2, groupB_standings ! 2, groupC_standings ! 2]
      = [groupB_standings ! 2, groupA_standings ! 2, groupC_standings ! 2]"
    by (simp_all add: defs array_sort_def compareStandings_def)
  note inst = getTopEightTeams_seeding [of sample_rankings groupA_standings groupB_standings
      groupC_standings "Some (groupB_standings ! 0)" "Some (groupA_standings ! 0)"
      "Some (groupC_standings ! 0)" "Some (groupB_standings ! 1)" "Some (groupA_standings ! 1)"
      "Some (groupC_standings ! 1)" "Some (groupB_standings ! 2)" "Some (groupA_standings ! 2)"]
  from inst [THEN conjunct1, rule_format] maps lens nums
  have "getTopEightTeams sample_rankings =
      Inr (map Some (array_sort compareStandings [groupA_standings ! 0, groupB_standings ! 0, groupC_standings ! 0]
                     @ array_sort compareStandings [groupA_standings ! 1, groupB_standings ! 1, groupC_standings ! 1]
                     @ take 2 (array_sort compareStandings [groupA_standings ! 2, groupB_standings ! 2, groupC_standings ! 2])))"
    by blast
  then have top: "getTopEightTeams sample_rankings =
       Inr (map Some
         [groupB_standings ! 0, groupA_standings ! 0, groupC_standings ! 0,
          groupB_standings ! 1, groupA_standings ! 1, groupC_standings ! 1,
          groupB_standings ! 2, groupA_standings ! 2])"
    unfolding sorts by simp
  from inst [THEN conjunct2, THEN conjunct2]
  have pairs: "getEliminationMatches (map Some
         [groupB_standings ! 0, groupA_standings ! 0, groupC_standings ! 0,
          groupB_standings ! 1, groupA_standings ! 1, groupC_standings ! 1,
          groupB_standings ! 2, groupA_standings ! 2])
       = Inr [(Some (groupB_standings ! 0), Some (groupA_standings ! 2)),
              (Some (groupC_standings ! 0), Some (groupC_standings ! 1)),
              (Some (groupA_standings ! 1), Some (groupB_standings ! 1)),
              (Some (groupB_standings ! 2), Some (groupA_standings ! 0))]"
    by simp
  from maps lens nums top pairs show ?thesis
    by (intro conjI)
qed

section \<open>Properties of the knockout stage\<close>

lemma simulateMatch_slots_return:
  "has_history exhibitions t1 \<Longrightarrow> has_history exhibitions t2 \<Longrightarrow>
   \<exists>result st'. simulateMatch exhibitions t1 t2 st = Inr (result, st')"
  using simulateMatch_returns [of exhibitions _ _ st]
  by (cases t1; cases t2) (simp_all add: has_history_def)

lemma simulateMatch_form:
  "simulateMatch exhibitions (Some team1) (Some team2) st = Inr (result, st') \<Longrightarrow>
   form_table st' = updateTeamForm team1 team2 (fst result) (snd result) (form_table st)"
  by (auto simp: simulateMatch_def Math_random_def Let_def split: sum.splits prod.splits)

lemma playQuarterfinals_four:
  assumes "simulateMatch exhibitions (fst q0) (snd q0) st = Inr (r0, s1)"
    "simulateMatch exhibitions (fst q1) (snd q1) s1 = Inr (r1, s2)"
    "simulateMatch exhibitions (fst q2) (snd q2) s2 = Inr (r2, s3)"
    "simulateMatch exhibitions (fst q3) (snd q3) s3 = Inr (r3, s4)"
  shows "playQuarterfinals exhibitions [q0, q1, q2, q3] [] [] st
    = Inr ([(q0, r0), (q1, r1), (q2, r2), (q3, r3)],
           [winner q0 r0, winner q1 r1, winner q2 r2, winner q3 r3], s4)"
  using assms by (simp add: winner_def)

lemma playSemifinal_0:
  assumes "simulateMatch exhibitions w0 w1 st = Inr (r, st')"
  shows "playSemifinal exhibitions [w0, w1, w2, w3] 0 st
     = Inr (((w0, w1), r), winner (w0, w1) r, loser (w0, w1) r, st')"
  using assms by (simp add: playSemifinal_def element_def winner_def loser_def)

lemma playSemifinal_1:
  assumes "simulateMatch exhibitions w2 w3 st = Inr (r, st')"
  shows "playSemifinal exhibitions [w0, w1, w2, w3] 1 st
     = Inr (((w2, w3), r), winner (w2, w3) r, loser (w2, w3) r, st')"
  using assms by (simp add: playSemifinal_def element_def winner_def loser_def)

lemma getEliminationResults_chain:
  assumes q: "simulateMatch exhibitions (fst q0) (snd q0) st = Inr (r0, s1)"
    "simulateMatch exhibitions (fst q1) (snd q1) s1 = Inr (r1, s2)"
    "simulateMatch exhibitions (fst q2) (snd q2) s2 = Inr (r2, s3)"
    "simulateMatch exhibitions (fst q3) (snd q3) s3 = Inr (r3, s4)"
    and sf0: "simulateMatch exhibitions (winner q0 r0) (winner q1 r1) s4 = Inr (rs0, s5)"
    and sf1: "simulateMatch exhibitions (winner q2 r2) (winner q3 r3) s5 = Inr (rs1, s6)"
    and f: "simulateMatch exhibitions (winner (winner q0 r0, winner q1 r1) rs0)
              (winner (winner q2 r2, winner q3 r3) rs1) s6 = Inr (rf, s7)"
    and b: "simulateMatch exhibitions (loser (winner q0 r0, winner q1 r1) rs0)
              (loser (winner q2 r2, winner q3 r3) rs1) s7 = Inr (rb, s8)"
  shows "getEliminationResults exhibitions [q0, q1, q2, q3] st =
     Inr (\<lparr>quarterfinals = [(q0, r0), (q1, r1), (q2, r2), (q3, r3)],
           semifinals = [((winner q0 r0, winner q1 r1), rs0), ((winner q2 r2, winner q3 r3), rs1)],
           finals = [((winner (winner q0 r0, winner q1 r1) rs0,
                       winner (winner q2 r2, winner q3 r3) rs1), rf)],
           bronze = [((loser (winner q0 r0, winner q1 r1) rs0,
                       loser (winner q2 r2, winner q3 r3) rs1), rb)]\<rparr>, s8)"
  unfolding getEliminationResults_def playQuarterfinals_four [OF q]
  by (simp add: playSemifinal_0 [OF sf0] playSemifinal_1 [OF sf1, unfolded One_nat_def] f b)


lemma advancing_known:
  "has_history exhibitions (fst pair) \<Longrightarrow> has_history exhibitions (snd pair) \<Longrightarrow>
   has_history exhibitions (winner pair result) \<and> has_history exhibitions (loser pair result)"
  by (simp add: winner_def loser_def)

text \<open>
  C7. For four quarterfinals whose eight teams all have an exhibition entry,
  \<open>getEliminationResults\<close> returns, and its result is that of eight simulated matches,
  each starting in the state the one before left: the four quarterfinals in order; the
  semifinal of the winners of quarterfinals 0 and 1, then that of the winners of
  quarterfinals 2 and 3; the final of the two semifinal winners; and the match for bronze
  of the two semifinal losers. The winner of a match is its first team when the first
  score is greater and its second team otherwise, so also on equal scores. Every simulated
  match updates the form table.
\<close>

theorem getEliminationResults_bracket:
  "(list_all (\<lambda>q. has_history exhibitions (fst q) \<and> has_history exhibitions (snd q)) [q0, q1, q2, q3]
    \<longrightarrow>
    (\<exists>r0 r1 r2 r3 rs0 rs1 rf rb s1 s2 s3 s4 s5 s6 s7 s8.
       simulateMatch exhibitions (fst q0) (snd q0) st = Inr (r0, s1)
     \<and> simulateMatch exhibitions (fst q1) (snd q1) s1 = Inr (r1, s2)
     \<and> simulateMatch exhibitions (fst q2) (snd q2) s2 = Inr (r2, s3)
     \<and> simulateMatch exhibitions (fst q3) (snd q3) s3 = Inr (r3, s4)
     \<and> simulateMatch exhibitions (winner q0 r0) (winner q1 r1) s4 = Inr (rs0, s5)
     \<and> simulateMatch exhibitions (winner q2 r2) (winner q3 r3) s5 = Inr (rs1, s6)
     \<and> simulateMatch exhibitions (winner (winner q0 r0, winner q1 r1) rs0)
           (winner (winner q2 r2, winner q3 r3) rs1) s6 = Inr (rf, s7)
     \<and> simulateMatch exhibitions (loser (winner q0 r0, winner q1 r1) rs0)
           (loser (winner q2 r2, winner q3 r3) rs1) s7 = Inr (rb, s8)
     \<and> getEliminationResults exhibitions [q0, q1, q2, q3] st =
         Inr (\<lparr>quarterfinals = [(q0, r0), (q1, r1), (q2, r2), (q3, r3)],
               semifinals = [((winner q0 r0, winner q1 r1), rs0),
                             ((winner q2 r2, winner q3 r3), rs1)],
               finals = [((winner (winner q0 r0, winner q1 r1) rs0,
                           winner (winner q2 r2, winner q3 r3) rs1), rf)],
               bronze = [((loser (winner q0 r0, winner q1 r1) rs0,
                           loser (winner q2 r2, winner q3 r3) rs1), rb)]\<rparr>, s8)))
   \<and> winner (t1, t2) (score1, score2) = (if js_gt score1 score2 then t1 else t2)
   \<and> loser (t1, t2) (score1, score2) = (if js_gt score1 score2 then t2 else t1)
   \<and> winner (t1, t2) (Num x, Num x) = t2
   \<and> (simulateMatch exhibitions (Some team1) (Some team2) st = Inr (result, st') \<longrightarrow>
        form_table st' = updateTeamForm team1 team2 (fst result) (snd result) (form_table st))"
proof (intro conjI impI)
  assume "list_all (\<lambda>q. has_history exhibitions (fst q) \<and> has_history exhibitions (snd q)) [q0, q1, q2, q3]"
  then have k: "has_history exhibitions (fst q0)" "has_history exhibitions (snd q0)"
    "has_history exhibitions (fst q1)" "has_history exhibitions (snd q1)"
    "has_history exhibitions (fst q2)" "has_history exhibitions (snd q2)"
    "has_history exhibitions (fst q3)" "has_history exhibitions (snd q3)"
    by simp_all
  obtain r0 s1 where 0: "simulateMatch exhibitions (fst q0) (snd q0) st = Inr (r0, s1)"
    using simulateMatch_slots_return [OF k(1,2)] by blast
  obtain r1 s2 where 1: "simulateMatch exhibitions (fst q1) (snd q1) s1 = Inr (r1, s2)"
    using simulateMatch_slots_return [OF k(3,4)] by blast
  obtain r2 s3 where 2: "simulateMatch exhibitions (fst q2) (snd q2) s2 = Inr (r2, s3)"
    using simulateMatch_slots_return [OF k(5,6)] by blast
  obtain r3 s4 where 3: "simulateMatch exhibitions (fst q3) (snd q3) s3 = Inr (r3, s4)"
    using simulateMatch_slots_return [OF k(7,8)] by blast
  note w0 = advancing_known [OF k(1,2), of r0] and w1 = advancing_known [OF k(3,4), of r1]
    and w2 = advancing_known [OF k(5,6), of r2] and w3 = advancing_known [OF k(7,8), of r3]
  obtain rs0 s5 where 4: "simulateMatch exhibitions (winner q0 r0) (winner q1 r1) s4 = Inr (rs0, s5)"
    using simulateMatch_slots_return [OF w0 [THEN conjunct1] w1 [THEN conjunct1]] by blast
  obtain rs1 s6 where 5: "simulateMatch exhibitions (winner q2 r2) (winner q3 r3) s5 = Inr (rs1, s6)"
    using simulateMatch_slots_return [OF w2 [THEN conjunct1] w3 [THEN conjunct1]] by blast
  have f0: "has_history exhibitions (winner (winner q0 r0, winner q1 r1) rs0)"
    and b0: "has_history exhibitions (loser (winner q0 r0, winner q1 r1) rs0)"
    using advancing_known [of exhibitions "(winner q0 r0, winner q1 r1)" rs0] w0 w1 by simp_all
  have f1: "has_history exhibitions (winner (winner q2 r2, winner q3 r3) rs1)"
    and b1: "has_history exhibitions (loser (winner q2 r2, winner q3 r3) rs1)"
    using advancing_known [of exhibitions "(winner q2 r2, winner q3 r3)" rs1] w2 w3 by simp_all
  obtain rf s7 where 6: "simulateMatch exhibitions (winner (winner q0 r0, winner q1 r1) rs0)
           (winner (winner q2 r2, winner q3 r3) rs1) s6 = Inr (rf, s7)"
    using simulateMatch_slots_return [OF f0 f1] by blast
  obtain rb s8 where 7: "simulateMatch exhibitions (loser (winner q0 r0, winner q1 r1) rs0)
           (loser (winner q2 r2, winner q3 r3) rs1) s7 = Inr (rb, s8)"
    using simulateMatch_slots_return [OF b0 b1] by blast
  note res = getEliminationResults_chain [OF 0 1 2 3 4 5 6 7]
  from 0 1 2 3 4 5 6 7 res
  show "\<exists>r0 r1 r2 r3 rs0 rs1 rf rb s1 s2 s3 s4 s5 s6 s7 s8.
       simulateMatch exhibitions (fst q0) (snd q0) st = Inr (r0, s1)
     \<and> simulateMatch exhibitions (fst q1) (snd q1) s1 = Inr (r1, s2)
     \<and> simulateMatch exhibitions (fst q2) (snd q2) s2 = Inr (r2, s3)
     \<and> simulateMatch exhibitions (fst q3) (snd q3) s3 = Inr (r3, s4)
     \<and> simulateMatch exhibitions (winner q0 r0) (winner q1 r1) s4 = Inr (rs0, s5)
     \<and> simulateMatch exhibitions (winner q2 r2) (winner q3 r3) s5 = Inr (rs1, s6)
     \<and> simulateMatch exhibitions (winner (winner q0 r0, winner q1 r1) rs0)
           (winner (winner q2 r2, winner q3 r3) rs1) s6 = Inr (rf, s7)
     \<and> simulateMatch exhibitions (loser (winner q0 r0, winner q1 r1) rs0)
           (loser (winner q2 r2, winner q3 r3) rs1) s7 = Inr (rb, s8)
     \<and> getEliminationResults exhibitions [q0, q1, q2, q3] st =
         Inr (\<lparr>quarterfinals = [(q0, r0), (q1, r1), (q2, r2), (q3, r3)],
               semifinals = [((winner q0 r0, winner q1 r1), rs0),
                             ((winner q2 r2, winner q3 r3), rs1)],
               finals = [((winner (winner q0 r0, winner q1 r1) rs0,
                           winner (winner q2 r2, winner q3 r3) rs1), rf)],
               bronze = [((loser (winner q0 r0, winner q1 r1) rs0,
                           loser (winner q2 r2, winner q3 r3) rs1), rb)]\<rparr>, s8)"
    by (intro exI conjI)
next
  assume "simulateMatch exhibitions (Some team1) (Some team2) st = Inr (result, st')"
  then show "form_table st' = updateTeamForm team1 team2 (fst result) (snd result) (form_table st)"
    by (rule simulateMatch_form)
qed (simp_all add: winner_def loser_def)

theorem getEliminationResults_bracket_witness:
  "list_all (\<lambda>q. has_history knockout_exhibitions (fst q) \<and> has_history knockout_exhibitions (snd q))
     sample_quarterfinals
   \<and> (\<exists>played st'. getEliminationResults knockout_exhibitions sample_quarterfinals sample_state
         = Inr (played, st')
        \<and> map fst (quarterfinals played) = sample_quarterfinals
        \<and> length (semifinals played) = 2 \<and> length (finals played) = 1
        \<and> length (bronze played) = 1)
   \<and> simulateMatch knockout_exhibitions (Some teamA) (Some teamB) sample_state
       = Inr ((Num 83, Num 77),
              sample_state\<lparr>form_table := updateTeamForm teamA teamB (Num 83) (Num 77)
                                            (form_table sample_state)\<rparr>)
   \<and> form_table (sample_state\<lparr>form_table := updateTeamForm teamA teamB (Num 83) (Num 77)
                                            (form_table sample_state)\<rparr>)
       = updateTeamForm teamA teamB (Num 83) (Num 77) (form_table sample_state)"
proof -
  have known: "list_all (\<lambda>q. has_history knockout_exhibitions (fst q)
      \<and> has_history knockout_exhibitions (snd q)) sample_quarterfinals"
    by (simp add: sample_quarterfinals_def has_history_def knockout_exhibitions_def
        sample_exhibitions_def teamA_def teamB_def teamC_def teamD_def teamE_def teamF_def
        teamG_def teamH_def)
  have sim: "simulateMatch knockout_exhibitions (Some teamA) (Some teamB) sample_state
       = Inr ((Num 83, Num 77),
              sample_state\<lparr>form_table := updateTeamForm teamA teamB (Num 83) (Num 77)
                                            (form_table sample_state)\<rparr>)"
    by (simp add: simulateMatch_def getBaseScore_def knockout_exhibitions_def sample_exhibitions_def
        parse_defs teamA_def teamB_def sample_state_def unroundedScores_def Let_def round_def
        Math_random_def)
  note inst = getEliminationResults_bracket [where exhibitions = knockout_exhibitions
      and ?q0.0 = "(Some teamE, Some teamC)" and ?q1.0 = "(Some teamA, Some teamB)"
      and ?q2.0 = "(Some teamH, Some teamG)" and ?q3.0 = "(Some teamD, Some teamF)"
      and st = sample_state and ?team1.0 = teamA and ?team2.0 = teamB
      and result = "(Num 83, Num 77)"
      and st' = "sample_state\<lparr>form_table := updateTeamForm teamA teamB (Num 83) (Num 77)
                                            (form_table sample_state)\<rparr>"]
  from inst [THEN conjunct1, rule_format, OF known [unfolded sample_quarterfinals_def]]
  obtain played st' where
    played: "getEliminationResults knockout_exhibitions sample_quarterfinals sample_state
         = Inr (played, st')"
    and shape: "map fst (quarterfinals played) = sample_quarterfinals"
      "length (semifinals played) = 2" "length (finals played) = 1" "length (bronze played) = 1"
    unfolding sample_quarterfinals_def by (elim exE conjE) simp
  then have ex: "\<exists>played st'. getEliminationResults knockout_exhibitions sample_quarterfinals sample_state
         = Inr (played, st')
        \<and> map fst (quarterfinals played) = sample_quarterfinals
        \<and> length (semifinals played) = 2 \<and> length (finals played) = 1
        \<and> length (bronze played) = 1"
    by blast
  from inst [THEN conjunct2, THEN conjunct2, THEN conjunct2, THEN conjunct2, rule_format, OF sim]
  have form: "form_table (sample_state\<lparr>form_table := updateTeamForm teamA teamB (Num 83) (Num 77)
                                            (form_table sample_state)\<rparr>)
       = updateTeamForm teamA teamB (Num 83) (Num 77) (form_table sample_state)"
    by simp
  from known ex sim form show ?thesis
    by (intro conjI)
qed

end
